theory Spec2Isabelle
  imports Complex_Main "HOL-Library.Word"
begin

text \<open>
  A model of the journaling application: the shared backend client
  (\<open>lib/supabase\<close>), the food screen, the two versions of the mood screen and the
  profile screen. Each handler is a function from the state of its screen to the
  state it leaves and the list of calls it makes, in order; what the backend, the
  third-party services and the device answer is a parameter (\<open>world\<close>).
\<close>

section \<open>JavaScript values used by the screens\<close>

text \<open>
  A JavaScript string is a sequence of UTF-16 code units; \<open>s.length\<close> counts code
  units. A literal of the source is written \<open>lit ''...''\<close>.
\<close>

type_synonym jsstring = "16 word list"

definition lit :: "string \<Rightarrow> jsstring" where
  "lit s = map (\<lambda>c. of_char c) s"

text \<open>
  The code units that \<open>String.prototype.trim\<close> and \<open>parseInt\<close> strip: the
  WhiteSpace and LineTerminator productions of ECMAScript (TAB, LF, VT, FF, CR, SP,
  NBSP, the Unicode space separators, LS, PS and the byte order mark).
\<close>

definition isWhiteSpace :: "16 word \<Rightarrow> bool" where
  "isWhiteSpace c \<longleftrightarrow>
     c \<in> set [0x0009, 0x000A, 0x000B, 0x000C, 0x000D, 0x0020, 0x00A0, 0x1680,
              0x2000, 0x2001, 0x2002, 0x2003, 0x2004, 0x2005, 0x2006, 0x2007,
              0x2008, 0x2009, 0x200A, 0x2028, 0x2029, 0x202F, 0x205F, 0x3000, 0xFEFF]"

definition trimStart :: "jsstring \<Rightarrow> jsstring" where
  "trimStart s = dropWhile isWhiteSpace s"

definition trimEnd :: "jsstring \<Rightarrow> jsstring" where
  "trimEnd s = rev (dropWhile isWhiteSpace (rev s))"

definition trim :: "jsstring \<Rightarrow> jsstring" where
  "trim s = trimStart (trimEnd s)"

text \<open>
  A JavaScript number is a double. The numbers the screens pass along unchanged
  (coordinates, temperature, nutrient values read from a response) are finite
  doubles, each of which is a rational; \<open>number\<close> is their exact value. \<open>None\<close>
  at type \<open>'a option\<close> stands for a value that is \<open>null\<close> or \<open>undefined\<close>: the
  operators the code applies to such values (\<open>!\<close>, \<open>||\<close>, \<open>??\<close>, \<open>?.\<close>) do not
  tell the two apart.
\<close>

type_synonym number = rat

definition isDigit :: "16 word \<Rightarrow> bool" where
  "isDigit c \<longleftrightarrow> 0x30 \<le> c \<and> c \<le> 0x39"

definition digitValue :: "16 word \<Rightarrow> int" where
  "digitValue c = uint c - 48"

definition digitsValue :: "jsstring \<Rightarrow> int" where
  "digitsValue ds = foldl (\<lambda>acc c. 10 * acc + digitValue c) 0 ds"

text \<open>
  \<open>parseInt(s, 10)\<close>: leading white space is skipped, one sign is read, then the
  longest run of decimal digits; with no digit the result is \<open>NaN\<close>, here \<open>None\<close>.
  The radix is given as 10, so no \<open>0x\<close> prefix is recognised. The result is the
  mathematical integer; the double the engine returns is that integer when its
  magnitude is below \<open>2^53\<close> and its nearest double (or an infinity) beyond, and the
  rounding is monotone, so the comparisons with 0, 1, 5 and 10000 made on the
  result come out the same on both. \<open>-0\<close> and \<open>0\<close> are both \<open>Some 0\<close>; the code
  tests them only with \<open>||\<close>, where both are falsy.
\<close>

definition parseInt :: "jsstring \<Rightarrow> int option" where
  "parseInt s =
     (let t = trimStart s;
          (sign, r) = (case t of
                         [] \<Rightarrow> (1, [])
                       | c # cs \<Rightarrow> if c = 0x2D then (- 1, cs)
                                  else if c = 0x2B then (1, cs)
                                  else (1, t));
          ds = takeWhile isDigit r
      in if ds = [] then None else Some (sign * digitsValue ds))"

text \<open>\<open>parseInt(s, 10) || d\<close>: \<open>NaN\<close> and zero are falsy.\<close>

definition parseInt_or :: "jsstring \<Rightarrow> int \<Rightarrow> int" where
  "parseInt_or s d = (case parseInt s of None \<Rightarrow> d | Some n \<Rightarrow> if n = 0 then d else n)"

text \<open>\<open>!v\<close> for a value of type \<open>string | null\<close>: null, undefined and the empty string.\<close>

definition falsy :: "jsstring option \<Rightarrow> bool" where
  "falsy v \<longleftrightarrow> (case v of None \<Rightarrow> True | Some s \<Rightarrow> s = [])"

text \<open>\<open>s || null\<close> for a string \<open>s\<close>.\<close>

definition str_or_null :: "jsstring \<Rightarrow> jsstring option" where
  "str_or_null s = (if s = [] then None else Some s)"

text \<open>\<open>x || null\<close> for a number \<open>x\<close> that may be nullish: zero becomes null too.\<close>

definition num_or_null :: "number option \<Rightarrow> number option" where
  "num_or_null x = (case x of None \<Rightarrow> None | Some v \<Rightarrow> if v = 0 then None else Some v)"

text \<open>\<open>Math.round\<close> on a finite double: the nearest integer, ties towards \<open>+\<infinity>\<close>.\<close>

definition Math_round :: "number \<Rightarrow> number" where
  "Math_round x = of_int \<lfloor>x + 1 / 2\<rfloor>"

text \<open>\<open>Math.min(5, Math.max(1, parseInt(s, 10) || 3))\<close>, the expression that computes
  \<open>moodNumber\<close> on the mood screens and \<open>ratingNumber\<close> on the food screen.\<close>

definition clamp15 :: "jsstring \<Rightarrow> int" where
  "clamp15 s = min 5 (max 1 (parseInt_or s 3))"

text \<open>
  \<open>Number.prototype.toString\<close> (and the conversion a template literal applies) on
  an integer of magnitude below \<open>10^21\<close>: an optional minus sign and the decimal
  digits. The screens apply it to \<open>caloriesNumber\<close> (0 to 10000) and to
  \<open>moodNumber\<close> (1 to 5) only.
\<close>

function decimal :: "nat \<Rightarrow> jsstring" where
  "decimal n = (if n < 10 then [of_nat (48 + n)]
                else decimal (n div 10) @ [of_nat (48 + n mod 10)])"
  by pat_completeness auto
termination
  by (relation "measure id") auto

declare decimal.simps [simp del]

definition Number_toString :: "int \<Rightarrow> jsstring" where
  "Number_toString n = (if n < 0 then 0x2D # decimal (nat (- n)) else decimal (nat n))"

text \<open>The values a column of an inserted row can hold.\<close>

datatype jsvalue = JNull | JString jsstring | JNumber number

definition of_string_opt :: "jsstring option \<Rightarrow> jsvalue" where
  "of_string_opt v = (case v of None \<Rightarrow> JNull | Some s \<Rightarrow> JString s)"

definition of_number_opt :: "number option \<Rightarrow> jsvalue" where
  "of_number_opt v = (case v of None \<Rightarrow> JNull | Some x \<Rightarrow> JNumber x)"

text \<open>An object literal passed to \<open>insert\<close>: its properties in source order.\<close>

type_synonym row = "(string \<times> jsvalue) list"

text \<open>An \<open>Error\<close> object, and the error object of a backend response: both are read
  through \<open>.message\<close> only.\<close>

record js_error =
  message :: jsstring

definition Error :: "jsstring \<Rightarrow> js_error" where
  "Error m = \<lparr>message = m\<rparr>"

section \<open>lib/supabase: the shared client\<close>

record env =
  EXPO_PUBLIC_SUPABASE_URL :: "jsstring option"
  EXPO_PUBLIC_SUPABASE_KEY :: "jsstring option"
  EXPO_PUBLIC_FOOD_API_KEY :: "jsstring option"
  EXPO_PUBLIC_WEATHER_API_KEY :: "jsstring option"

record client =
  supabaseUrl :: jsstring
  supabaseKey :: jsstring

text \<open>
  \<open>createClient\<close> belongs to the SDK, which is not part of the repository. Its
  constructor throws on arguments it does not accept (a URL that is not a valid
  HTTP or HTTPS URL, for one) and builds the client otherwise. Which arguments it
  refuses, and with which error, is the parameter \<open>rejects\<close>.
\<close>

definition createClient ::
  "(jsstring \<Rightarrow> jsstring \<Rightarrow> js_error option) \<Rightarrow> jsstring \<Rightarrow> jsstring \<Rightarrow> js_error + client" where
  "createClient rejects u k =
     (case rejects u k of
        Some e \<Rightarrow> Inl e
      | None \<Rightarrow> Inr \<lparr>supabaseUrl = u, supabaseKey = k\<rparr>)"

text \<open>
  The module body: two guards, then \<open>createClient(url, anonKey)\<close>. \<open>Inl\<close> is the
  error the module throws when it is loaded; \<open>Inr\<close> is the exported constant
  \<open>supabase\<close>. The screens import that constant; below it is their first argument.
\<close>

definition supabase ::
  "(jsstring \<Rightarrow> jsstring \<Rightarrow> js_error option) \<Rightarrow> env \<Rightarrow> js_error + client" where
  "supabase rejects e =
     (let url = EXPO_PUBLIC_SUPABASE_URL e;
          anonKey = EXPO_PUBLIC_SUPABASE_KEY e
      in case url of
           None \<Rightarrow> Inl (Error (lit ''Missing EXPO_PUBLIC_SUPABASE_URL''))
         | Some u \<Rightarrow>
             if u = [] then Inl (Error (lit ''Missing EXPO_PUBLIC_SUPABASE_URL''))
             else (case anonKey of
                     None \<Rightarrow> Inl (Error (lit ''Missing EXPO_PUBLIC_SUPABASE_KEY''))
                   | Some k \<Rightarrow>
                       if k = [] then Inl (Error (lit ''Missing EXPO_PUBLIC_SUPABASE_KEY''))
                       else createClient rejects u k))"

section \<open>Calls that leave the application\<close>

text \<open>
  A query as the builder chain \<open>from(t).select(c).eq(k, v).order(k, {ascending}).limit(n)\<close>
  assembles it. \<open>returns<T>()\<close> is a type annotation and adds nothing.
\<close>

record query =
  table :: string
  columns :: string
  filters :: "(string \<times> jsstring option) list"
  ordering :: "(string \<times> bool) option"
  limit :: "nat option"

definition sb_from :: "string \<Rightarrow> query" where
  "sb_from t = \<lparr>table = t, columns = [], filters = [], ordering = None, limit = None\<rparr>"

definition sb_select :: "string \<Rightarrow> query \<Rightarrow> query" where
  "sb_select c q = q\<lparr>columns := c\<rparr>"

definition sb_eq :: "string \<Rightarrow> jsstring option \<Rightarrow> query \<Rightarrow> query" where
  "sb_eq k v q = q\<lparr>filters := filters q @ [(k, v)]\<rparr>"

definition sb_order :: "string \<Rightarrow> bool \<Rightarrow> query \<Rightarrow> query" where
  "sb_order k ascending q = q\<lparr>ordering := Some (k, ascending)\<rparr>"

definition sb_limit :: "nat \<Rightarrow> query \<Rightarrow> query" where
  "sb_limit n q = q\<lparr>limit := Some n\<rparr>"

text \<open>
  The response of a select, as the SDK types it: a failure carries an error and
  \<open>data: null\<close>, a success carries the rows and \<open>error: null\<close>.
\<close>

datatype 'a postgrest_response = Failure js_error | Success 'a

definition response_data :: "'a postgrest_response \<Rightarrow> 'a option" where
  "response_data r = (case r of Failure e \<Rightarrow> None | Success d \<Rightarrow> Some d)"

definition response_error :: "'a postgrest_response \<Rightarrow> js_error option" where
  "response_error r = (case r of Failure e \<Rightarrow> Some e | Success d \<Rightarrow> None)"

text \<open>
  The two HTTP requests of the application. The source builds
  \<open>https://api.openweathermap.org/data/2.5/weather?lat=..&lon=..&appid=..&units=metric\<close>
  and
  \<open>https://api.nal.usda.gov/fdc/v1/foods/search?query=..&api_key=..&pageSize=10\<close>;
  a request records the values placed into the URL.
\<close>

datatype request =
    WeatherRequest number number jsstring
  | FoodSearchRequest jsstring jsstring

text \<open>A response: \<open>ok\<close>, \<open>status\<close>, and what \<open>await response.json()\<close> gives
  (\<open>Inl\<close> when it rejects).\<close>

record 'a response =
  ok :: bool
  status :: nat
  json :: "js_error + 'a"

datatype level = ConsoleLog | ConsoleWarn | ConsoleError

datatype event =
    DbInsert client string row
  | DbSelect client query
  | DbDelete client query
  | AuthGetUser client
  | AuthSignOut client
  | HttpGet request
  | Alert jsstring jsstring
  | RequestForegroundPermissions
  | GetCurrentPosition
  | Console level jsstring

fun isInsert :: "event \<Rightarrow> bool" where
  "isInsert (DbInsert c t r) = True"
| "isInsert e = False"

fun isSelect :: "event \<Rightarrow> bool" where
  "isSelect (DbSelect c q) = True"
| "isSelect e = False"

fun isHttp :: "event \<Rightarrow> bool" where
  "isHttp (HttpGet r) = True"
| "isHttp e = False"

text \<open>The client a database or auth call goes through.\<close>

fun client_of :: "event \<Rightarrow> client option" where
  "client_of (DbInsert c t r) = Some c"
| "client_of (DbSelect c q) = Some c"
| "client_of (DbDelete c q) = Some c"
| "client_of (AuthGetUser c) = Some c"
| "client_of (AuthSignOut c) = Some c"
| "client_of e = None"

section \<open>The world outside the application\<close>

text \<open>
  The rows of the two tables as the screens read them, and the third-party
  response bodies at the fields the code reads. A field the code guards
  (\<open>?.\<close>, \<open>||\<close>, \<open>??\<close>, \<open>&&\<close>) is optional. The source types a decoded
  body as \<open>any\<close>; here a body has the shape the two services document (an array
  of objects where the code indexes or maps, numbers where it compares or
  rounds), with each guarded field possibly missing. A body that cannot be
  decoded at all is the rejection of \<open>response.json()\<close>.
\<close>

datatype meal = breakfast | lunch | dinner | snack

fun meal_string :: "meal \<Rightarrow> jsstring" where
  "meal_string breakfast = lit ''breakfast''"
| "meal_string lunch = lit ''lunch''"
| "meal_string dinner = lit ''dinner''"
| "meal_string snack = lit ''snack''"

record NutritionInfo =
  name :: jsstring
  calories :: number
  protein :: number
  carbs :: number
  fat :: number

record FoodEntry =
  id' :: jsstring
  food_name :: jsstring
  calories :: "number option"
  protein :: "number option"
  carbs :: "number option"
  fat :: "number option"
  fiber :: "number option"
  meal_type :: meal
  rating :: "number option"
  notes' :: "jsstring option"
  created_at :: "jsstring option"
  user_id :: jsstring

record Entry =
  id' :: jsstring
  text' :: jsstring
  mood :: "number option"
  created_at :: "jsstring option"
  lat :: "number option"
  lng :: "number option"
  weather :: "jsstring option"
  temperature :: "number option"
  user_id :: jsstring

text \<open>The body of a food search: \<open>data.foods\<close>, \<open>food.description\<close>,
  \<open>food.foodNutrients\<close>, \<open>n.nutrientId\<close> and \<open>n.value\<close>.\<close>

record foodNutrient =
  nutrientId :: "number option"
  nutrient_value :: "number option"

record food =
  description :: "jsstring option"
  foodNutrients :: "foodNutrient list option"

record food_search =
  foods :: "food list option"

text \<open>The body of a weather response: \<open>data.weather[0].main\<close> and \<open>data.main?.temp\<close>.\<close>

record weather_item =
  main :: "jsstring option"

record main_block =
  temp :: "number option"

record weather_data =
  weather :: "weather_item list option"
  main :: "main_block option"

record User =
  id' :: jsstring
  email :: "jsstring option"

datatype PermissionStatus = granted | denied | undetermined

record coords =
  latitude :: number
  longitude :: number

text \<open>
  What the outside answers. A call to the SDK's query builder resolves to a
  response object and does not reject; \<open>fetch\<close> and the location calls may reject
  (\<open>Inl\<close>). \<open>today\<close> is \<open>new Date().toDateString()\<close> and \<open>toDateString s\<close> is
  \<open>new Date(s).toDateString()\<close>. Every statement below holds for every world, so
  for every way the outside may answer.
\<close>

record world =
  process_env :: env
  auth_getUser :: "User option"
  auth_signOut :: "js_error option"
  db_insert :: "string \<Rightarrow> row \<Rightarrow> js_error option"
  db_delete :: "query \<Rightarrow> js_error option"
  select_food_entries :: "query \<Rightarrow> FoodEntry list postgrest_response"
  select_data :: "query \<Rightarrow> Entry list postgrest_response"
  fetch_food :: "request \<Rightarrow> js_error + food_search response"
  fetch_weather :: "request \<Rightarrow> js_error + weather_data response"
  requestForegroundPermissionsAsync :: "js_error + PermissionStatus"
  getCurrentPositionAsync :: "js_error + coords"
  today :: jsstring
  toDateString :: "jsstring \<Rightarrow> jsstring"

section \<open>The food screen\<close>

definition FOOD_TABLE :: string where
  "FOOD_TABLE = ''food_entries''"

text \<open>
  \<open>encodeURIComponent\<close> throws a \<open>URIError\<close> on a string with an unpaired
  surrogate and encodes every other string.
\<close>

fun wellFormed :: "jsstring \<Rightarrow> bool" where
  "wellFormed [] = True"
| "wellFormed [c] = (\<not> (0xD800 \<le> c \<and> c \<le> 0xDFFF))"
| "wellFormed (c # d # cs) =
     (if 0xD800 \<le> c \<and> c \<le> 0xDBFF then 0xDC00 \<le> d \<and> d \<le> 0xDFFF \<and> wellFormed cs
      else if 0xDC00 \<le> c \<and> c \<le> 0xDFFF then False
      else wellFormed (d # cs))"

text \<open>
  \<open>Math.round(nutrients.find((n) => n.nutrientId === k)?.value || 0)\<close>
\<close>

definition roundedNutrient :: "number \<Rightarrow> foodNutrient list \<Rightarrow> number" where
  "roundedNutrient k nutrients =
     Math_round (case List.find (\<lambda>n. nutrientId n = Some k) nutrients of
                   None \<Rightarrow> 0
                 | Some n \<Rightarrow> (case nutrient_value n of None \<Rightarrow> 0 | Some v \<Rightarrow> v))"

text \<open>The function \<open>searchFoodAPI\<close> maps over \<open>data.foods\<close>.\<close>

definition foodToNutrition :: "food \<Rightarrow> NutritionInfo" where
  "foodToNutrition f =
     (let nutrients = (case foodNutrients f of None \<Rightarrow> [] | Some ns \<Rightarrow> ns)
      in \<lparr>name = (case description f of
                    None \<Rightarrow> lit ''Unknown Food''
                  | Some d \<Rightarrow> if d = [] then lit ''Unknown Food'' else d),
          NutritionInfo.calories = roundedNutrient 1008 nutrients,
          NutritionInfo.protein = roundedNutrient 1003 nutrients,
          NutritionInfo.carbs = roundedNutrient 1005 nutrients,
          NutritionInfo.fat = roundedNutrient 1004 nutrients\<rparr>)"

text \<open>The \<open>catch\<close> block of \<open>searchFoodAPI\<close>.\<close>

definition searchFoodAPI_catch :: "event list" where
  "searchFoodAPI_catch =
     [Console ConsoleError (lit ''Food API Error:''),
      Alert (lit ''Error'') (lit ''Failed to search food database'')]"

definition searchFoodAPI :: "world \<Rightarrow> jsstring \<Rightarrow> NutritionInfo list \<times> event list" where
  "searchFoodAPI w q =
     (case EXPO_PUBLIC_FOOD_API_KEY (process_env w) of
        None \<Rightarrow> ([], [Alert (lit ''Error'') (lit ''Food API key not configured'')])
      | Some API_KEY \<Rightarrow>
          if API_KEY = [] then ([], [Alert (lit ''Error'') (lit ''Food API key not configured'')])
          else if \<not> wellFormed q then ([], searchFoodAPI_catch)
          else (case fetch_food w (FoodSearchRequest q API_KEY) of
                  Inl e \<Rightarrow> ([], HttpGet (FoodSearchRequest q API_KEY) # searchFoodAPI_catch)
                | Inr response \<Rightarrow>
                    if \<not> ok response
                    then ([], HttpGet (FoodSearchRequest q API_KEY) # searchFoodAPI_catch)
                    else (case json response of
                            Inl e \<Rightarrow> ([], HttpGet (FoodSearchRequest q API_KEY) # searchFoodAPI_catch)
                          | Inr data \<Rightarrow>
                              ((case foods data of
                                  None \<Rightarrow> []
                                | Some fs \<Rightarrow> map foodToNutrition fs),
                               [HttpGet (FoodSearchRequest q API_KEY)]))))"

record DailySummary =
  totalCalories :: number
  totalProtein :: number
  totalCarbs :: number
  totalFat :: number
  totalFiber :: number
  mealCounts :: "meal \<Rightarrow> number"
  averageRating :: number

text \<open>
  The state variables of \<open>FoodScreen\<close>, one field for each \<open>useState\<close>. A handler
  reads the variables as they were when the screen was last rendered (its argument
  \<open>s\<close>) and its \<open>set...\<close> calls take effect in the order they are made; the state
  it returns is the one left when it has finished.
\<close>

record food_state =
  foodName :: jsstring
  calories :: jsstring
  mealType :: meal
  rating :: jsstring
  notes' :: jsstring
  selectedNutrition :: "NutritionInfo option"
  items :: "FoodEntry list"
  loading :: bool
  inserting :: bool
  refreshing :: bool
  error :: "jsstring option"
  userId :: "jsstring option"
  showNutritionModal :: bool
  nutritionResults :: "NutritionInfo list"
  showSummary :: bool
  dailySummary :: "DailySummary option"

text \<open>The effect \<open>getCurrentUser\<close>: \<open>setUserId(user?.id || null)\<close>.\<close>

definition FoodScreen_getCurrentUser ::
  "client \<Rightarrow> world \<Rightarrow> food_state \<Rightarrow> food_state \<times> event list" where
  "FoodScreen_getCurrentUser sb w s =
     (s\<lparr>userId := (case auth_getUser w of None \<Rightarrow> None | Some u \<Rightarrow> str_or_null (User.id' u))\<rparr>,
      [AuthGetUser sb])"

text \<open>
  \<open>calculateDailySummary\<close>. \<open>x || 0\<close> on a nullable number is the number, or 0.
  The sums and the quotient are the exact ones; the engine rounds each to a double.
\<close>

definition or0 :: "number option \<Rightarrow> number" where
  "or0 x = (case x of None \<Rightarrow> 0 | Some v \<Rightarrow> v)"

definition calculateDailySummary :: "world \<Rightarrow> FoodEntry list \<Rightarrow> food_state \<Rightarrow> food_state" where
  "calculateDailySummary w entries s =
     (let todayEntries =
            filter (\<lambda>e. case FoodEntry.created_at e of
                          None \<Rightarrow> False
                        | Some c \<Rightarrow> c \<noteq> [] \<and> toDateString w c = today w) entries;
          ratingsSum = foldl (\<lambda>sum entry. sum + or0 (FoodEntry.rating entry)) 0 todayEntries
      in s\<lparr>dailySummary := Some
            \<lparr>totalCalories = foldl (\<lambda>sum entry. sum + or0 (FoodEntry.calories entry)) 0 todayEntries,
             totalProtein = foldl (\<lambda>sum entry. sum + or0 (FoodEntry.protein entry)) 0 todayEntries,
             totalCarbs = foldl (\<lambda>sum entry. sum + or0 (FoodEntry.carbs entry)) 0 todayEntries,
             totalFat = foldl (\<lambda>sum entry. sum + or0 (FoodEntry.fat entry)) 0 todayEntries,
             totalFiber = foldl (\<lambda>sum entry. sum + or0 (fiber entry)) 0 todayEntries,
             mealCounts = (\<lambda>m. of_nat (length (filter (\<lambda>e. meal_type e = m) todayEntries))),
             averageRating = (if length todayEntries > 0
                              then ratingsSum / of_nat (length todayEntries) else 0)\<rparr>\<rparr>)"

text \<open>The query \<open>fetchItems\<close> builds.\<close>

definition FoodScreen_query :: "jsstring option \<Rightarrow> query" where
  "FoodScreen_query uid =
     sb_limit 50 (sb_order ''created_at'' False (sb_eq ''user_id'' uid
       (sb_select ''*'' (sb_from FOOD_TABLE))))"

definition FoodScreen_fetchItems ::
  "client \<Rightarrow> world \<Rightarrow> food_state \<Rightarrow> food_state \<times> event list" where
  "FoodScreen_fetchItems sb w s =
     (if falsy (userId s) then (s, [])
      else
        let s1 = s\<lparr>refreshing := True, error := None\<rparr>;
            q = FoodScreen_query (userId s);
            r = select_food_entries w q;
            s2 = (case response_error r of
                    Some qErr \<Rightarrow> s1\<lparr>error := Some (message qErr)\<rparr>
                  | None \<Rightarrow> s1);
            s3 = s2\<lparr>items := (case response_data r of None \<Rightarrow> [] | Some d \<Rightarrow> d)\<rparr>;
            s4 = (case response_data r of
                    Some d \<Rightarrow> calculateDailySummary w d s3
                  | None \<Rightarrow> s3)
        in (s4\<lparr>refreshing := False\<rparr>, [DbSelect sb q]))"

text \<open>
  The row \<open>addFoodEntry\<close> inserts. \<open>selectedNutrition?.protein || null\<close> is null
  when nothing is selected and when the selected value is 0.
\<close>

definition FoodScreen_row :: "food_state \<Rightarrow> jsstring \<Rightarrow> int \<Rightarrow> int \<Rightarrow> row" where
  "FoodScreen_row s trimmedName caloriesNumber ratingNumber =
     [(''food_name'', JString trimmedName),
      (''calories'', JNumber (of_int caloriesNumber)),
      (''protein'', of_number_opt (num_or_null (map_option NutritionInfo.protein (selectedNutrition s)))),
      (''carbs'', of_number_opt (num_or_null (map_option NutritionInfo.carbs (selectedNutrition s)))),
      (''fat'', of_number_opt (num_or_null (map_option NutritionInfo.fat (selectedNutrition s)))),
      (''fiber'', of_number_opt (num_or_null (map_option NutritionInfo.fat (selectedNutrition s)))),
      (''meal_type'', JString (meal_string (mealType s))),
      (''rating'', JNumber (of_int ratingNumber)),
      (''notes'', of_string_opt (str_or_null (trim (notes' s)))),
      (''user_id'', of_string_opt (userId s))]"

definition FoodScreen_addFoodEntry ::
  "client \<Rightarrow> world \<Rightarrow> food_state \<Rightarrow> food_state \<times> event list" where
  "FoodScreen_addFoodEntry sb w s =
     (if falsy (userId s) then (s\<lparr>error := Some (lit ''User not authenticated'')\<rparr>, [])
      else
        let trimmedName = trim (foodName s) in
        if trimmedName = []
        then (s, [Alert (lit ''Error'') (lit ''Please enter a food name'')])
        else if length trimmedName > 100
        then (s, [Alert (lit ''Error'') (lit ''Food name too long (max 100 characters)'')])
        else if length (notes' s) > 500
        then (s, [Alert (lit ''Error'') (lit ''Notes too long (max 500 characters)'')])
        else
          let s1 = s\<lparr>inserting := True, error := None\<rparr>;
              caloriesNumber = parseInt_or (calories s) 0;
              ratingNumber = clamp15 (rating s)
          in
          if caloriesNumber < 0 \<or> caloriesNumber > 10000
          then (s1\<lparr>inserting := False\<rparr>,
                [Alert (lit ''Error'') (lit ''Please enter a valid calorie amount (0-10000)'')])
          else
            let r = FoodScreen_row s trimmedName caloriesNumber ratingNumber;
                (s2, ev2) =
                  (case db_insert w FOOD_TABLE r of
                     Some insErr \<Rightarrow> (s1\<lparr>error := Some (message insErr)\<rparr>, [])
                   | None \<Rightarrow>
                       (s1\<lparr>foodName := [], calories := [], notes' := [],
                           selectedNutrition := None\<rparr>,
                        [Alert (lit ''Food Logged!'')
                           (trimmedName @ lit '' ('' @ Number_toString caloriesNumber
                              @ lit '' cal) added to '' @ meal_string (mealType s))]));
                (s3, ev3) = FoodScreen_fetchItems sb w s2
            in (s3\<lparr>inserting := False\<rparr>, DbInsert sb FOOD_TABLE r # ev2 @ ev3))"

text \<open>
  \<open>clearAllEntries\<close> opens a confirmation dialog; \<open>clearAllEntries_onPress\<close> is the
  handler of its \<open>Delete All\<close> button.
\<close>

definition FoodScreen_clearAllEntries :: "event list" where
  "FoodScreen_clearAllEntries =
     [Alert (lit ''Clear All Entries'')
        (lit ''Are you sure you want to delete all your food entries? This cannot be undone.'')]"

definition FoodScreen_clearAllEntries_onPress ::
  "client \<Rightarrow> world \<Rightarrow> food_state \<Rightarrow> food_state \<times> event list" where
  "FoodScreen_clearAllEntries_onPress sb w s =
     (let q = sb_eq ''user_id'' (userId s) (sb_from FOOD_TABLE) in
      case db_delete w q of
        Some e \<Rightarrow> (s, [DbDelete sb q, Alert (lit ''Error'') (message e)])
      | None \<Rightarrow>
          (let (s1, ev1) = FoodScreen_fetchItems sb w s
           in (s1, [DbDelete sb q, Alert (lit ''Success'') (lit ''All entries cleared'')] @ ev1)))"

section \<open>The mood screen\<close>

text \<open>
  The repository holds two versions of \<open>HomeScreen\<close>. The earlier one has no user:
  its state is \<open>mood_base\<close>. The current one adds \<open>userId\<close>. Definitions of the
  earlier version carry the prefix \<open>HomeScreenOld\<close>. Both read the table \<open>data\<close>
  with \<open>select('*')\<close>; the earlier version declares the type of a row without
  \<open>temperature\<close> and \<open>user_id\<close>, which changes nothing in what is read.
\<close>

definition TABLE :: string where
  "TABLE = ''data''"

record mood_base =
  text' :: jsstring
  mood :: jsstring
  useLocation :: bool
  items :: "Entry list"
  loading :: bool
  inserting :: bool
  refreshing :: bool
  error :: "jsstring option"

record mood_state = mood_base +
  userId :: "jsstring option"

record weather_result =
  weather :: "jsstring option"
  temperature :: "number option"

definition HomeScreen_getCurrentUser ::
  "client \<Rightarrow> world \<Rightarrow> mood_state \<Rightarrow> mood_state \<times> event list" where
  "HomeScreen_getCurrentUser sb w s =
     (s\<lparr>userId := (case auth_getUser w of None \<Rightarrow> None | Some u \<Rightarrow> str_or_null (User.id' u))\<rparr>,
      [AuthGetUser sb])"

definition HomeScreen_query :: "jsstring option \<Rightarrow> query" where
  "HomeScreen_query uid =
     sb_limit 50 (sb_order ''created_at'' False (sb_eq ''user_id'' uid
       (sb_select ''*'' (sb_from TABLE))))"

definition HomeScreen_fetchItems ::
  "client \<Rightarrow> world \<Rightarrow> mood_state \<Rightarrow> mood_state \<times> event list" where
  "HomeScreen_fetchItems sb w s =
     (if falsy (userId s) then (s, [])
      else
        let s1 = s\<lparr>refreshing := True, error := None\<rparr>;
            q = HomeScreen_query (userId s);
            r = select_data w q;
            s2 = (case response_error r of
                    Some qErr \<Rightarrow> s1\<lparr>error := Some (message qErr)\<rparr>
                  | None \<Rightarrow> s1);
            s3 = s2\<lparr>items := (case response_data r of None \<Rightarrow> [] | Some d \<Rightarrow> d)\<rparr>
        in (s3\<lparr>refreshing := False\<rparr>, [DbSelect sb q]))"

definition null_weather :: weather_result where
  "null_weather = \<lparr>weather = None, temperature = None\<rparr>"

definition HomeScreen_fetchWeather ::
  "world \<Rightarrow> number \<Rightarrow> number \<Rightarrow> weather_result \<times> event list" where
  "HomeScreen_fetchWeather w lat' lng' =
     (case EXPO_PUBLIC_WEATHER_API_KEY (process_env w) of
        None \<Rightarrow> (null_weather, [Console ConsoleWarn (lit ''Weather API key not configured'')])
      | Some WEATHER_API_KEY \<Rightarrow>
          if WEATHER_API_KEY = []
          then (null_weather, [Console ConsoleWarn (lit ''Weather API key not configured'')])
          else
            let req = WeatherRequest lat' lng' WEATHER_API_KEY;
                caught = [HttpGet req, Console ConsoleError (lit ''Weather fetch failed:'')]
            in (case fetch_weather w req of
                  Inl e \<Rightarrow> (null_weather, caught)
                | Inr resp \<Rightarrow>
                    if \<not> ok resp then (null_weather, caught)
                    else (case json resp of
                            Inl e \<Rightarrow> (null_weather, caught)
                          | Inr data \<Rightarrow>
                              (case weather_data.weather data of
                                 Some (w0 # ws) \<Rightarrow>
                                   (\<lparr>weather = weather_item.main w0,
                                     temperature = (case weather_data.main data of
                                                      None \<Rightarrow> None
                                                    | Some m \<Rightarrow> temp m)\<rparr>,
                                    [HttpGet req])
                               | _ \<Rightarrow> (null_weather, [HttpGet req])))))"

text \<open>
  The block \<open>if (useLocation) { ... }\<close> of \<open>addItem\<close>: the values it leaves in
  \<open>lat\<close>, \<open>lng\<close>, \<open>weather\<close> and \<open>temperature\<close>. The permission request is outside
  the \<open>try\<close>, so its rejection (\<open>Inl\<close>) rejects \<open>addItem\<close>; a rejected position
  request is caught and leaves the four variables null.
\<close>

type_synonym located = "number option \<times> number option \<times> jsstring option \<times> number option"

definition HomeScreen_locate :: "world \<Rightarrow> bool \<Rightarrow> (js_error + located) \<times> event list" where
  "HomeScreen_locate w use =
     (if use then
        (case requestForegroundPermissionsAsync w of
           Inl e \<Rightarrow> (Inl e, [RequestForegroundPermissions])
         | Inr st \<Rightarrow>
             if st = granted then
               (case getCurrentPositionAsync w of
                  Inl locationError \<Rightarrow>
                    (Inr (None, None, None, None),
                     [RequestForegroundPermissions, GetCurrentPosition,
                      Console ConsoleWarn (lit ''Location fetch failed:'')])
                | Inr pos \<Rightarrow>
                    (let (wr, evw) = HomeScreen_fetchWeather w (latitude pos) (longitude pos)
                     in (Inr (Some (latitude pos), Some (longitude pos),
                              weather wr, temperature wr),
                         [RequestForegroundPermissions, GetCurrentPosition] @ evw)))
             else (Inr (None, None, None, None), [RequestForegroundPermissions]))
      else (Inr (None, None, None, None), []))"

definition HomeScreen_row ::
  "mood_state \<Rightarrow> jsstring \<Rightarrow> int \<Rightarrow> located \<Rightarrow> row" where
  "HomeScreen_row s trimmed moodNumber loc =
     (case loc of (lat', lng', weather', temperature') \<Rightarrow>
        [(''text'', JString trimmed),
         (''mood'', JNumber (of_int moodNumber)),
         (''lat'', of_number_opt lat'),
         (''lng'', of_number_opt lng'),
         (''weather'', of_string_opt weather'),
         (''temperature'', of_number_opt temperature'),
         (''user_id'', of_string_opt (userId s))])"

text \<open>The first component of the result is the error \<open>addItem\<close> rejects with, if any.\<close>

definition HomeScreen_addItem ::
  "client \<Rightarrow> world \<Rightarrow> mood_state \<Rightarrow> js_error option \<times> mood_state \<times> event list" where
  "HomeScreen_addItem sb w s =
     (if falsy (userId s) then (None, s\<lparr>error := Some (lit ''User not authenticated'')\<rparr>, [])
      else
        let trimmed = trim (text' s) in
        if trimmed = [] then (None, s, [])
        else
          let s1 = s\<lparr>inserting := True, error := None\<rparr> in
          (case HomeScreen_locate w (useLocation s) of
             (Inl e, evl) \<Rightarrow> (Some e, s1, evl)
           | (Inr loc, evl) \<Rightarrow>
               let moodNumber = clamp15 (mood s);
                   r = HomeScreen_row s trimmed moodNumber loc;
                   (s2, ev2) =
                     (case db_insert w TABLE r of
                        Some insErr \<Rightarrow> (s1\<lparr>error := Some (message insErr)\<rparr>, [])
                      | None \<Rightarrow>
                          (s1, [Alert (lit ''Success! '' @ [0x2705])
                                  (lit ''Mood '' @ Number_toString moodNumber
                                     @ lit '' entry saved''
                                     @ (case fst (snd (snd loc)) of
                                          None \<Rightarrow> []
                                        | Some wth \<Rightarrow>
                                            if wth = [] then []
                                            else lit '' with '' @ wth @ lit '' weather''))]));
                   s3 = s2\<lparr>text' := []\<rparr>;
                   (s4, ev4) = HomeScreen_fetchItems sb w s3
               in (None, s4\<lparr>inserting := False\<rparr>, evl @ DbInsert sb TABLE r # ev2 @ ev4)))"

subsection \<open>The earlier version\<close>

definition HomeScreenOld_query :: query where
  "HomeScreenOld_query =
     sb_limit 50 (sb_order ''created_at'' False (sb_select ''*'' (sb_from TABLE)))"

definition HomeScreenOld_fetchItems ::
  "client \<Rightarrow> world \<Rightarrow> mood_base \<Rightarrow> mood_base \<times> event list" where
  "HomeScreenOld_fetchItems sb w s =
     (let s1 = s\<lparr>refreshing := True, error := None\<rparr>;
          r = select_data w HomeScreenOld_query;
          s2 = (case response_error r of
                  Some qErr \<Rightarrow> s1\<lparr>error := Some (message qErr)\<rparr>
                | None \<Rightarrow> s1);
          s3 = s2\<lparr>items := (case response_data r of None \<Rightarrow> [] | Some d \<Rightarrow> d)\<rparr>
      in (s3\<lparr>refreshing := False\<rparr>, [DbSelect sb HomeScreenOld_query]))"

definition HomeScreenOld_WEATHER_API_KEY :: jsstring where
  "HomeScreenOld_WEATHER_API_KEY = lit ''bfbe90ac8554b36605cc11902e437ef7''"

text \<open>The earlier \<open>fetchWeather\<close> returns the weather string or null, and does not
  look at \<open>resp.ok\<close>.\<close>

definition HomeScreenOld_fetchWeather ::
  "world \<Rightarrow> number \<Rightarrow> number \<Rightarrow> jsstring option \<times> event list" where
  "HomeScreenOld_fetchWeather w lat' lng' =
     (let req = WeatherRequest lat' lng' HomeScreenOld_WEATHER_API_KEY;
          caught = [HttpGet req, Console ConsoleLog (lit ''Weather fetch failed:'')]
      in case fetch_weather w req of
           Inl e \<Rightarrow> (None, caught)
         | Inr resp \<Rightarrow>
             (case json resp of
                Inl e \<Rightarrow> (None, caught)
              | Inr data \<Rightarrow>
                  (case weather_data.weather data of
                     Some (w0 # ws) \<Rightarrow> (weather_item.main w0, [HttpGet req])
                   | _ \<Rightarrow> (None, [HttpGet req]))))"

text \<open>The earlier location block has no \<open>try\<close>: either request may reject \<open>addItem\<close>.\<close>

type_synonym located_old = "number option \<times> number option \<times> jsstring option"

definition HomeScreenOld_locate ::
  "world \<Rightarrow> bool \<Rightarrow> (js_error + located_old) \<times> event list" where
  "HomeScreenOld_locate w use =
     (if use then
        (case requestForegroundPermissionsAsync w of
           Inl e \<Rightarrow> (Inl e, [RequestForegroundPermissions])
         | Inr st \<Rightarrow>
             if st = granted then
               (case getCurrentPositionAsync w of
                  Inl e \<Rightarrow> (Inl e, [RequestForegroundPermissions, GetCurrentPosition])
                | Inr pos \<Rightarrow>
                    (let (wth, evw) = HomeScreenOld_fetchWeather w (latitude pos) (longitude pos)
                     in (Inr (Some (latitude pos), Some (longitude pos), wth),
                         [RequestForegroundPermissions, GetCurrentPosition] @ evw)))
             else (Inr (None, None, None), [RequestForegroundPermissions]))
      else (Inr (None, None, None), []))"

definition HomeScreenOld_row :: "jsstring \<Rightarrow> int \<Rightarrow> located_old \<Rightarrow> row" where
  "HomeScreenOld_row trimmed moodNumber loc =
     (case loc of (lat', lng', weather') \<Rightarrow>
        [(''text'', JString trimmed),
         (''mood'', JNumber (of_int moodNumber)),
         (''lat'', of_number_opt lat'),
         (''lng'', of_number_opt lng'),
         (''weather'', of_string_opt weather')])"

definition HomeScreenOld_addItem ::
  "client \<Rightarrow> world \<Rightarrow> mood_base \<Rightarrow> js_error option \<times> mood_base \<times> event list" where
  "HomeScreenOld_addItem sb w s =
     (let trimmed = trim (text' s) in
      if trimmed = [] then (None, s, [])
      else
        let s1 = s\<lparr>inserting := True, error := None\<rparr> in
        (case HomeScreenOld_locate w (useLocation s) of
           (Inl e, evl) \<Rightarrow> (Some e, s1, evl)
         | (Inr loc, evl) \<Rightarrow>
             let moodNumber = clamp15 (mood s);
                 r = HomeScreenOld_row trimmed moodNumber loc;
                 s2 = (case db_insert w TABLE r of
                         Some insErr \<Rightarrow> s1\<lparr>error := Some (message insErr)\<rparr>
                       | None \<Rightarrow> s1);
                 s3 = s2\<lparr>text' := []\<rparr>;
                 (s4, ev4) = HomeScreenOld_fetchItems sb w s3
             in (None, s4\<lparr>inserting := False\<rparr>, evl @ DbInsert sb TABLE r # ev4)))"

section \<open>The profile screen\<close>

record profile_state =
  user :: "User option"
  loading :: bool

definition ProfileScreen_getUser ::
  "client \<Rightarrow> world \<Rightarrow> profile_state \<Rightarrow> profile_state \<times> event list" where
  "ProfileScreen_getUser sb w s = (s\<lparr>user := auth_getUser w, loading := False\<rparr>, [AuthGetUser sb])"

text \<open>\<open>handleLogout\<close> opens a confirmation dialog; \<open>handleLogout_onPress\<close> is the
  handler of its \<open>Logout\<close> button.\<close>

definition ProfileScreen_handleLogout :: "event list" where
  "ProfileScreen_handleLogout = [Alert (lit ''Logout'') (lit ''Are you sure you want to logout?'')]"

definition ProfileScreen_handleLogout_onPress :: "client \<Rightarrow> world \<Rightarrow> event list" where
  "ProfileScreen_handleLogout_onPress sb w =
     (case auth_signOut w of
        Some e \<Rightarrow> [AuthSignOut sb, Alert (lit ''Error'') (message e)]
      | None \<Rightarrow> [AuthSignOut sb])"

section \<open>Initial states and sample runs\<close>

text \<open>The events that stay on the device or go to a third party: everything but the
  database and auth calls.\<close>

fun isLocal :: "event \<Rightarrow> bool" where
  "isLocal (HttpGet r) = True"
| "isLocal (Alert a b) = True"
| "isLocal RequestForegroundPermissions = True"
| "isLocal GetCurrentPosition = True"
| "isLocal (Console l m) = True"
| "isLocal e = False"

text \<open>The initial values given to \<open>useState\<close>.\<close>

definition FoodScreen_initial :: food_state where
  "FoodScreen_initial =
     \<lparr>foodName = [], food_state.calories = [], mealType = breakfast, food_state.rating = lit ''3'',
      food_state.notes' = [], selectedNutrition = None, food_state.items = [],
      food_state.loading = False, food_state.inserting = False, food_state.refreshing = False,
      food_state.error = None, food_state.userId = None, showNutritionModal = False,
      nutritionResults = [], showSummary = False, dailySummary = None\<rparr>"

definition HomeScreenOld_initial :: mood_base where
  "HomeScreenOld_initial =
     \<lparr>text' = [], mood = lit ''3'', useLocation = False, mood_base.items = [],
      mood_base.loading = False, mood_base.inserting = False, mood_base.refreshing = False,
      mood_base.error = None\<rparr>"

definition HomeScreen_initial :: mood_state where
  "HomeScreen_initial =
     \<lparr>text' = [], mood = lit ''3'', useLocation = False, mood_base.items = [],
      mood_base.loading = False, mood_base.inserting = False, mood_base.refreshing = False,
      mood_base.error = None, userId = None\<rparr>"

text \<open>An SDK that accepts the URLs that start with \<open>http://\<close> or \<open>https://\<close>, a
  configured client and a world in which every call succeeds.\<close>

definition sdk0 :: "jsstring \<Rightarrow> jsstring \<Rightarrow> js_error option" where
  "sdk0 u k =
     (if take 7 u = lit ''http://'' \<or> take 8 u = lit ''https://'' then None
      else Some (Error (lit ''Invalid supabaseUrl: Must be a valid HTTP or HTTPS URL.'')))"

definition sb0 :: client where
  "sb0 = \<lparr>supabaseUrl = lit ''https://project.supabase.co'', supabaseKey = lit ''anon-key''\<rparr>"

definition env0 :: env where
  "env0 = \<lparr>EXPO_PUBLIC_SUPABASE_URL = Some (lit ''https://project.supabase.co''),
           EXPO_PUBLIC_SUPABASE_KEY = Some (lit ''anon-key''),
           EXPO_PUBLIC_FOOD_API_KEY = Some (lit ''food-key''),
           EXPO_PUBLIC_WEATHER_API_KEY = Some (lit ''weather-key'')\<rparr>"

definition rain :: weather_data where
  "rain = \<lparr>weather_data.weather = Some [\<lparr>weather_item.main = Some (lit ''Rain'')\<rparr>],
           weather_data.main = Some \<lparr>temp = Some (43 / 2)\<rparr>\<rparr>"

definition apple :: food where
  "apple = \<lparr>description = Some (lit ''Apple, raw''),
            foodNutrients = Some [\<lparr>nutrientId = Some 1003, nutrient_value = Some (1 / 2)\<rparr>,
                                  \<lparr>nutrientId = Some 1008, nutrient_value = Some 52\<rparr>,
                                  \<lparr>nutrientId = Some 1005, nutrient_value = Some 14\<rparr>]\<rparr>"

definition world0 :: world where
  "world0 = \<lparr>process_env = env0,
             auth_getUser = Some \<lparr>User.id' = lit ''u1'', email = None\<rparr>,
             auth_signOut = None,
             db_insert = (\<lambda>t r. None),
             db_delete = (\<lambda>q. None),
             select_food_entries = (\<lambda>q. Success []),
             select_data = (\<lambda>q. Success []),
             fetch_food = (\<lambda>r. Inr \<lparr>ok = True, status = 200, json = Inr \<lparr>foods = Some [apple]\<rparr>\<rparr>),
             fetch_weather = (\<lambda>r. Inr \<lparr>ok = True, status = 200, json = Inr rain\<rparr>),
             requestForegroundPermissionsAsync = Inr granted,
             getCurrentPositionAsync = Inr \<lparr>latitude = 52, longitude = 13\<rparr>,
             today = lit ''Mon Nov 02 2026'',
             toDateString = (\<lambda>s. take 15 s)\<rparr>"

text \<open>The food form filled in after a nutrition lookup of an apple (no fat), and the
  mood form filled in with the location switch on.\<close>

definition food1 :: food_state where
  "food1 = FoodScreen_initial
     \<lparr>foodName := lit '' Apple, raw '', food_state.calories := lit ''52'',
      food_state.notes' := lit ''crisp'',
      selectedNutrition := Some \<lparr>name = lit ''Apple, raw'', NutritionInfo.calories = 52,
                                 NutritionInfo.protein = 1, NutritionInfo.carbs = 14,
                                 NutritionInfo.fat = 0\<rparr>,
      food_state.userId := Some (lit ''u1'')\<rparr>"

definition mood1 :: mood_state where
  "mood1 = HomeScreen_initial
     \<lparr>text' := lit ''fine day '', mood := lit ''4'', useLocation := True,
      userId := Some (lit ''u1'')\<rparr>"

definition old1 :: mood_base where
  "old1 = HomeScreenOld_initial\<lparr>text' := lit ''fine day '', mood := lit ''9''\<rparr>"

text \<open>Worlds in which one call goes wrong: a rejected insert, a failed select, a
  weather response with status 500 that still carries a body, a food search
  without hits, and an environment with no variable set.\<close>

definition world_insert_fails :: world where
  "world_insert_fails = world0\<lparr>db_insert := (\<lambda>t r. Some (Error (lit ''insert failed'')))\<rparr>"

definition world_select_fails :: world where
  "world_select_fails =
     world0\<lparr>select_food_entries := (\<lambda>q. Failure (Error (lit ''connection lost''))),
            select_data := (\<lambda>q. Failure (Error (lit ''connection lost'')))\<rparr>"

text \<open>Rows fetched earlier, for states whose \<open>items\<close> is not empty, and a second
  nutrition item.\<close>

definition toast :: FoodEntry where
  "toast = \<lparr>FoodEntry.id' = lit ''e1'', food_name = lit ''Toast'', FoodEntry.calories = Some 80,
            FoodEntry.protein = None, FoodEntry.carbs = None, FoodEntry.fat = None, fiber = None,
            meal_type = breakfast, FoodEntry.rating = Some 4, FoodEntry.notes' = None,
            FoodEntry.created_at = Some (lit ''2026-11-01T08:00:00Z''),
            FoodEntry.user_id = lit ''u1''\<rparr>"

definition note1 :: Entry where
  "note1 = \<lparr>Entry.id' = lit ''m1'', Entry.text' = lit ''ok'', Entry.mood = Some 3,
            Entry.created_at = Some (lit ''2026-11-01T08:00:00Z''), lat = None, lng = None,
            Entry.weather = None, Entry.temperature = None, user_id = lit ''u1''\<rparr>"

definition world_weather_500 :: world where
  "world_weather_500 =
     world0\<lparr>fetch_weather := (\<lambda>r. Inr \<lparr>ok = False, status = 500, json = Inr rain\<rparr>)\<rparr>"

definition world_no_results :: world where
  "world_no_results =
     world0\<lparr>fetch_food := (\<lambda>r. Inr \<lparr>ok = True, status = 200, json = Inr \<lparr>foods = Some []\<rparr>\<rparr>)\<rparr>"

definition env_empty :: env where
  "env_empty = \<lparr>EXPO_PUBLIC_SUPABASE_URL = None, EXPO_PUBLIC_SUPABASE_KEY = None,
                EXPO_PUBLIC_FOOD_API_KEY = None, EXPO_PUBLIC_WEATHER_API_KEY = None\<rparr>"

definition cheddar :: NutritionInfo where
  "cheddar = \<lparr>name = lit ''Cheddar'', NutritionInfo.calories = 403, NutritionInfo.protein = 23,
              NutritionInfo.carbs = 3, NutritionInfo.fat = 33\<rparr>"

section \<open>Traces of the operations\<close>

lemma clamp15_range: "1 \<le> clamp15 s \<and> clamp15 s \<le> 5"
  by (simp add: clamp15_def)

lemma clamp15_NaN: "parseInt s = None \<Longrightarrow> clamp15 s = 3"
  by (simp add: clamp15_def parseInt_or_def)

lemma isLocal_not_backend: "isLocal e \<Longrightarrow> \<not> isInsert e \<and> \<not> isSelect e \<and> client_of e = None"
  by (cases e) simp_all

lemma FoodScreen_fetchItems_trace:
  "snd (FoodScreen_fetchItems sb w s) =
     (if falsy (food_state.userId s) then []
      else [DbSelect sb (FoodScreen_query (food_state.userId s))])"
  by (simp add: FoodScreen_fetchItems_def Let_def)

lemma FoodScreen_addFoodEntry_reached:
  assumes "\<not> falsy (food_state.userId s)" and "trim (foodName s) \<noteq> []"
    and "length (trim (foodName s)) \<le> 100" and "length (food_state.notes' s) \<le> 500"
    and "0 \<le> parseInt_or (food_state.calories s) 0"
    and "parseInt_or (food_state.calories s) 0 \<le> 10000"
  shows "\<exists>mid. snd (FoodScreen_addFoodEntry sb w s) =
           DbInsert sb FOOD_TABLE
             (FoodScreen_row s (trim (foodName s)) (parseInt_or (food_state.calories s) 0)
                (clamp15 (food_state.rating s)))
           # mid @ [DbSelect sb (FoodScreen_query (food_state.userId s))]
         \<and> (\<forall>e\<in>set mid. \<exists>a b. e = Alert a b)"
  using assms
  by (simp add: FoodScreen_addFoodEntry_def Let_def FoodScreen_fetchItems_trace split_beta
           split: option.split)

lemma FoodScreen_addFoodEntry_refused:
  assumes "falsy (food_state.userId s) \<or> trim (foodName s) = []
           \<or> length (trim (foodName s)) > 100 \<or> length (food_state.notes' s) > 500
           \<or> parseInt_or (food_state.calories s) 0 < 0
           \<or> parseInt_or (food_state.calories s) 0 > 10000"
  shows "\<forall>e\<in>set (snd (FoodScreen_addFoodEntry sb w s)). \<exists>a b. e = Alert a b"
  using assms
  by (auto simp add: FoodScreen_addFoodEntry_def Let_def)

lemma FoodScreen_addFoodEntry_insert:
  assumes "\<exists>e\<in>set (snd (FoodScreen_addFoodEntry sb w s)). isInsert e"
  shows "\<not> falsy (food_state.userId s) \<and> trim (foodName s) \<noteq> []
         \<and> length (trim (foodName s)) \<le> 100 \<and> length (food_state.notes' s) \<le> 500
         \<and> 0 \<le> parseInt_or (food_state.calories s) 0
         \<and> parseInt_or (food_state.calories s) 0 \<le> 10000"
proof (rule ccontr)
  assume "\<not> ?thesis"
  then have "\<forall>e\<in>set (snd (FoodScreen_addFoodEntry sb w s)). \<exists>a b. e = Alert a b"
    using FoodScreen_addFoodEntry_refused[of s sb w] by (simp add: not_le)
  with assms show False by auto
qed

lemma HomeScreen_fetchItems_trace:
  "snd (HomeScreen_fetchItems sb w s) =
     (if falsy (mood_state.userId s) then []
      else [DbSelect sb (HomeScreen_query (mood_state.userId s))])"
  by (simp add: HomeScreen_fetchItems_def Let_def)

lemma HomeScreenOld_fetchItems_trace:
  "snd (HomeScreenOld_fetchItems sb w s) = [DbSelect sb HomeScreenOld_query]"
  by (simp add: HomeScreenOld_fetchItems_def Let_def)

lemma HomeScreen_fetchWeather_events:
  "snd (HomeScreen_fetchWeather w x y) \<in>
     {[Console ConsoleWarn (lit ''Weather API key not configured'')]} \<union>
     (\<Union>k. {[HttpGet (WeatherRequest x y k)],
            [HttpGet (WeatherRequest x y k), Console ConsoleError (lit ''Weather fetch failed:'')]})"
  by (auto simp add: HomeScreen_fetchWeather_def Let_def split: option.split sum.split list.split)

lemma HomeScreen_fetchWeather_local:
  "\<forall>e\<in>set (snd (HomeScreen_fetchWeather w x y)). isLocal e"
  using HomeScreen_fetchWeather_events[of w x y] by auto

lemma HomeScreen_locate_local:
  "\<forall>e\<in>set (snd (HomeScreen_locate w u)). isLocal e"
  using HomeScreen_fetchWeather_local
  by (auto simp add: HomeScreen_locate_def split_beta split: sum.split)

lemma HomeScreen_addItem_skip:
  assumes "falsy (mood_state.userId s) \<or> trim (text' s) = []"
  shows "snd (snd (HomeScreen_addItem sb w s)) = []"
  using assms by (auto simp add: HomeScreen_addItem_def Let_def)

lemma HomeScreen_addItem_rejected:
  assumes "\<not> falsy (mood_state.userId s)" and "trim (text' s) \<noteq> []"
    and "HomeScreen_locate w (useLocation s) = (Inl e, evl)"
  shows "HomeScreen_addItem sb w s = (Some e, s\<lparr>inserting := True, error := None\<rparr>, evl)"
  using assms by (simp add: HomeScreen_addItem_def Let_def)

lemma HomeScreen_addItem_reached:
  assumes "\<not> falsy (mood_state.userId s)" and "trim (text' s) \<noteq> []"
    and "HomeScreen_locate w (useLocation s) = (Inr loc, evl)"
  shows "\<exists>mid. snd (snd (HomeScreen_addItem sb w s)) =
           evl @ DbInsert sb TABLE (HomeScreen_row s (trim (text' s)) (clamp15 (mood s)) loc)
               # mid @ [DbSelect sb (HomeScreen_query (mood_state.userId s))]
         \<and> (\<forall>e\<in>set mid. \<exists>a b. e = Alert a b)"
  using assms
  by (simp add: HomeScreen_addItem_def Let_def HomeScreen_fetchItems_trace split_beta
           split: option.split)

lemma HomeScreen_addItem_insert:
  assumes "\<exists>e\<in>set (snd (snd (HomeScreen_addItem sb w s))). isInsert e"
  shows "\<not> falsy (mood_state.userId s) \<and> trim (text' s) \<noteq> [] \<and>
         (\<exists>loc evl mid.
            HomeScreen_locate w (useLocation s) = (Inr loc, evl) \<and>
            snd (snd (HomeScreen_addItem sb w s)) =
              evl @ DbInsert sb TABLE (HomeScreen_row s (trim (text' s)) (clamp15 (mood s)) loc)
                  # mid @ [DbSelect sb (HomeScreen_query (mood_state.userId s))] \<and>
            (\<forall>e\<in>set evl. isLocal e) \<and> (\<forall>e\<in>set mid. \<exists>a b. e = Alert a b))"
proof -
  have guards: "\<not> falsy (mood_state.userId s) \<and> trim (text' s) \<noteq> []"
    using assms HomeScreen_addItem_skip[of s sb w] by auto
  obtain res evl where loc: "HomeScreen_locate w (useLocation s) = (res, evl)"
    by (cases "HomeScreen_locate w (useLocation s)")
  have local: "\<forall>e\<in>set evl. isLocal e"
    using HomeScreen_locate_local[of w "useLocation s"] loc by simp
  show ?thesis
  proof (cases res)
    case (Inl e)
    then have "snd (snd (HomeScreen_addItem sb w s)) = evl"
      using HomeScreen_addItem_rejected[of s w e evl sb] guards loc by simp
    with assms local have False
      using isLocal_not_backend by auto
    then show ?thesis ..
  next
    case (Inr l)
    then show ?thesis
      using HomeScreen_addItem_reached[of s w l evl sb] guards loc local by blast
  qed
qed

lemma HomeScreenOld_fetchWeather_local:
  "\<forall>e\<in>set (snd (HomeScreenOld_fetchWeather w x y)). isLocal e"
  by (auto simp add: HomeScreenOld_fetchWeather_def Let_def split: option.split sum.split list.split)

lemma HomeScreenOld_locate_local:
  "\<forall>e\<in>set (snd (HomeScreenOld_locate w u)). isLocal e"
  using HomeScreenOld_fetchWeather_local
  by (auto simp add: HomeScreenOld_locate_def split_beta split: sum.split)

lemma HomeScreenOld_addItem_skip:
  assumes "trim (text' s) = []"
  shows "snd (snd (HomeScreenOld_addItem sb w s)) = []"
  using assms by (auto simp add: HomeScreenOld_addItem_def Let_def)

lemma HomeScreenOld_addItem_rejected:
  assumes "trim (text' s) \<noteq> []"
    and "HomeScreenOld_locate w (useLocation s) = (Inl e, evl)"
  shows "HomeScreenOld_addItem sb w s = (Some e, s\<lparr>inserting := True, error := None\<rparr>, evl)"
  using assms by (simp add: HomeScreenOld_addItem_def Let_def)

lemma HomeScreenOld_addItem_reached:
  assumes "trim (text' s) \<noteq> []"
    and "HomeScreenOld_locate w (useLocation s) = (Inr loc, evl)"
  shows "snd (snd (HomeScreenOld_addItem sb w s)) =
           evl @ [DbInsert sb TABLE (HomeScreenOld_row (trim (text' s)) (clamp15 (mood s)) loc),
                  DbSelect sb HomeScreenOld_query]"
  using assms
  by (simp add: HomeScreenOld_addItem_def Let_def HomeScreenOld_fetchItems_trace split_beta)

lemma HomeScreenOld_addItem_insert:
  assumes "\<exists>e\<in>set (snd (snd (HomeScreenOld_addItem sb w s))). isInsert e"
  shows "trim (text' s) \<noteq> [] \<and>
         (\<exists>loc evl.
            HomeScreenOld_locate w (useLocation s) = (Inr loc, evl) \<and>
            snd (snd (HomeScreenOld_addItem sb w s)) =
              evl @ [DbInsert sb TABLE (HomeScreenOld_row (trim (text' s)) (clamp15 (mood s)) loc),
                     DbSelect sb HomeScreenOld_query] \<and>
            (\<forall>e\<in>set evl. isLocal e))"
proof -
  have guards: "trim (text' s) \<noteq> []"
    using assms HomeScreenOld_addItem_skip[of s sb w] by auto
  obtain res evl where loc: "HomeScreenOld_locate w (useLocation s) = (res, evl)"
    by (cases "HomeScreenOld_locate w (useLocation s)")
  have local: "\<forall>e\<in>set evl. isLocal e"
    using HomeScreenOld_locate_local[of w "useLocation s"] loc by simp
  show ?thesis
  proof (cases res)
    case (Inl e)
    then have "snd (snd (HomeScreenOld_addItem sb w s)) = evl"
      using HomeScreenOld_addItem_rejected[of s w e evl sb] guards loc by simp
    with assms local have False
      using isLocal_not_backend by auto
    then show ?thesis ..
  next
    case (Inr l)
    then show ?thesis
      using HomeScreenOld_addItem_reached[of s w l evl sb] guards loc local by blast
  qed
qed

text \<open>The rows found in the traces.\<close>

lemma FoodScreen_inserted_row:
  assumes "DbInsert c t r \<in> set (snd (FoodScreen_addFoodEntry sb w s))"
  shows "c = sb \<and> t = FOOD_TABLE \<and>
         r = FoodScreen_row s (trim (foodName s)) (parseInt_or (food_state.calories s) 0)
               (clamp15 (food_state.rating s))"
proof -
  have ex: "\<exists>e\<in>set (snd (FoodScreen_addFoodEntry sb w s)). isInsert e"
    using assms by force
  from FoodScreen_addFoodEntry_insert[OF ex] FoodScreen_addFoodEntry_reached[of s sb w]
  obtain mid where tr: "snd (FoodScreen_addFoodEntry sb w s) =
           DbInsert sb FOOD_TABLE
             (FoodScreen_row s (trim (foodName s)) (parseInt_or (food_state.calories s) 0)
                (clamp15 (food_state.rating s)))
           # mid @ [DbSelect sb (FoodScreen_query (food_state.userId s))]"
    and mid: "\<forall>e\<in>set mid. \<exists>a b. e = Alert a b"
    by blast
  from assms tr mid show ?thesis by auto
qed

lemma HomeScreen_inserted_row:
  assumes "DbInsert c t r \<in> set (snd (snd (HomeScreen_addItem sb w s)))"
  shows "c = sb \<and> t = TABLE \<and>
         (\<exists>loc. r = HomeScreen_row s (trim (text' s)) (clamp15 (mood s)) loc)"
proof -
  have ex: "\<exists>e\<in>set (snd (snd (HomeScreen_addItem sb w s))). isInsert e"
    using assms by force
  from HomeScreen_addItem_insert[OF ex]
  obtain loc evl mid where tr: "snd (snd (HomeScreen_addItem sb w s)) =
              evl @ DbInsert sb TABLE (HomeScreen_row s (trim (text' s)) (clamp15 (mood s)) loc)
                  # mid @ [DbSelect sb (HomeScreen_query (mood_state.userId s))]"
    and evl: "\<forall>e\<in>set evl. isLocal e" and mid: "\<forall>e\<in>set mid. \<exists>a b. e = Alert a b"
    by blast
  have "DbInsert c t r \<notin> set evl" using evl by force
  moreover have "DbInsert c t r \<notin> set mid" using mid by force
  ultimately show ?thesis using assms tr by (auto simp del: split_paired_Ex)
qed

lemma HomeScreenOld_inserted_row:
  assumes "DbInsert c t r \<in> set (snd (snd (HomeScreenOld_addItem sb w s)))"
  shows "c = sb \<and> t = TABLE \<and>
         (\<exists>loc. r = HomeScreenOld_row (trim (text' s)) (clamp15 (mood s)) loc)"
proof -
  have ex: "\<exists>e\<in>set (snd (snd (HomeScreenOld_addItem sb w s))). isInsert e"
    using assms by force
  from HomeScreenOld_addItem_insert[OF ex]
  obtain loc evl where tr: "snd (snd (HomeScreenOld_addItem sb w s)) =
              evl @ [DbInsert sb TABLE (HomeScreenOld_row (trim (text' s)) (clamp15 (mood s)) loc),
                     DbSelect sb HomeScreenOld_query]"
    and evl: "\<forall>e\<in>set evl. isLocal e"
    by blast
  have "DbInsert c t r \<notin> set evl" using evl by force
  then show ?thesis using assms tr by (auto simp del: split_paired_Ex)
qed

text \<open>Sample runs, evaluated.\<close>

lemmas js_simps =
  falsy_def trim_def trimStart_def trimEnd_def lit_def isWhiteSpace_def
  parseInt_or_def parseInt_def isDigit_def digitsValue_def digitValue_def clamp15_def

lemma food1_form:
  "\<not> falsy (food_state.userId food1) \<and> trim (foodName food1) = lit ''Apple, raw''
   \<and> length (food_state.notes' food1) = 5 \<and> parseInt_or (food_state.calories food1) 0 = 52
   \<and> clamp15 (food_state.rating food1) = 3"
  by (simp add: food1_def FoodScreen_initial_def js_simps)

lemma mood1_form:
  "\<not> falsy (mood_state.userId mood1) \<and> trim (text' mood1) = lit ''fine day''
   \<and> clamp15 (mood mood1) = 4"
  by (simp add: mood1_def HomeScreen_initial_def js_simps)

lemma old1_form:
  "trim (text' old1) = lit ''fine day'' \<and> clamp15 (mood old1) = 5"
  by (simp add: old1_def HomeScreenOld_initial_def js_simps)

lemma world0_locate:
  "HomeScreen_locate world0 True =
     (Inr (Some 52, Some 13, Some (lit ''Rain''), Some (43 / 2)),
      [RequestForegroundPermissions, GetCurrentPosition,
       HttpGet (WeatherRequest 52 13 (lit ''weather-key''))])"
  by (simp add: HomeScreen_locate_def HomeScreen_fetchWeather_def world0_def env0_def rain_def
        Let_def lit_def)

lemma world0_locate_insert_fails:
  "HomeScreen_locate (world0\<lparr>db_insert := f\<rparr>) True =
     (Inr (Some 52, Some 13, Some (lit ''Rain''), Some (43 / 2)),
      [RequestForegroundPermissions, GetCurrentPosition,
       HttpGet (WeatherRequest 52 13 (lit ''weather-key''))])"
  by (simp add: HomeScreen_locate_def HomeScreen_fetchWeather_def world0_def env0_def rain_def
        Let_def lit_def)

lemma food1_inserts:
  "DbInsert sb0 FOOD_TABLE (FoodScreen_row food1 (lit ''Apple, raw'') 52 3)
     \<in> set (snd (FoodScreen_addFoodEntry sb0 w food1))"
  using FoodScreen_addFoodEntry_reached[of food1 sb0 w] food1_form by (auto simp add: lit_def)

lemma mood1_inserts:
  assumes "HomeScreen_locate w True = (Inr loc, evl)"
  shows "DbInsert sb0 TABLE (HomeScreen_row mood1 (lit ''fine day'') 4 loc)
           \<in> set (snd (snd (HomeScreen_addItem sb0 w mood1)))"
proof -
  have "useLocation mood1" by (simp add: mood1_def HomeScreen_initial_def)
  then show ?thesis
    using HomeScreen_addItem_reached[of mood1 w loc evl sb0] mood1_form assms
    by (auto simp add: lit_def)
qed

lemma old1_inserts:
  "DbInsert sb0 TABLE (HomeScreenOld_row (lit ''fine day'') 5 (None, None, None))
     \<in> set (snd (snd (HomeScreenOld_addItem sb0 w old1)))"
proof -
  have "HomeScreenOld_locate w (useLocation old1) = (Inr (None, None, None), [])"
    by (simp add: old1_def HomeScreenOld_initial_def HomeScreenOld_locate_def)
  then show ?thesis
    using HomeScreenOld_addItem_reached[of old1 w _ _ sb0] old1_form by (simp add: lit_def)
qed

lemma isInsert_filter_local: "\<forall>e\<in>set evs. isLocal e \<Longrightarrow> filter isInsert evs = []"
  using isLocal_not_backend by (induction evs) auto

lemma food1_run_insert_fails:
  "snd (FoodScreen_addFoodEntry sb0 world_insert_fails food1) =
     [DbInsert sb0 FOOD_TABLE (FoodScreen_row food1 (lit ''Apple, raw'') 52 3),
      DbSelect sb0 (FoodScreen_query (Some (lit ''u1'')))]"
  using food1_form
  by (simp add: FoodScreen_addFoodEntry_def Let_def FoodScreen_fetchItems_trace split_beta
        world_insert_fails_def lit_def)
     (simp add: food1_def FoodScreen_initial_def lit_def)

lemma mood1_run_insert_fails:
  "snd (snd (HomeScreen_addItem sb0 world_insert_fails mood1)) =
     [RequestForegroundPermissions, GetCurrentPosition,
      HttpGet (WeatherRequest 52 13 (lit ''weather-key'')),
      DbInsert sb0 TABLE
        (HomeScreen_row mood1 (lit ''fine day'') 4 (Some 52, Some 13, Some (lit ''Rain''), Some (43 / 2))),
      DbSelect sb0 (HomeScreen_query (Some (lit ''u1'')))]"
proof -
  have u: "useLocation mood1" "mood_state.userId mood1 = Some (lit ''u1'')"
    by (simp_all add: mood1_def HomeScreen_initial_def)
  show ?thesis
    using mood1_form u world0_locate_insert_fails[of "\<lambda>t r. Some (Error (lit ''insert failed''))"]
    by (simp add: HomeScreen_addItem_def Let_def HomeScreen_fetchItems_trace split_beta
        world_insert_fails_def)
       (simp add: world0_def lit_def)
qed

lemma FoodScreen_fetchItems_failure:
  assumes "\<not> falsy (food_state.userId s)"
    and "select_food_entries w (FoodScreen_query (food_state.userId s)) = Failure e"
  shows "food_state.items (fst (FoodScreen_fetchItems sb w s)) = []
         \<and> food_state.error (fst (FoodScreen_fetchItems sb w s)) = Some (message e)"
  using assms
  by (simp add: FoodScreen_fetchItems_def Let_def response_error_def response_data_def)

lemma HomeScreen_fetchItems_failure:
  assumes "\<not> falsy (mood_state.userId s)"
    and "select_data w (HomeScreen_query (mood_state.userId s)) = Failure e"
  shows "mood_base.items (fst (HomeScreen_fetchItems sb w s)) = []
         \<and> mood_base.error (fst (HomeScreen_fetchItems sb w s)) = Some (message e)"
  using assms
  by (simp add: HomeScreen_fetchItems_def Let_def response_error_def response_data_def)

lemma FoodScreen_query_fields:
  "table (FoodScreen_query uid) = FOOD_TABLE \<and> columns (FoodScreen_query uid) = ''*''
   \<and> filters (FoodScreen_query uid) = [(''user_id'', uid)]
   \<and> ordering (FoodScreen_query uid) = Some (''created_at'', False)
   \<and> limit (FoodScreen_query uid) = Some 50"
  by (simp add: FoodScreen_query_def sb_limit_def sb_order_def sb_eq_def sb_select_def sb_from_def)

lemma HomeScreen_query_fields:
  "table (HomeScreen_query uid) = TABLE \<and> columns (HomeScreen_query uid) = ''*''
   \<and> filters (HomeScreen_query uid) = [(''user_id'', uid)]
   \<and> ordering (HomeScreen_query uid) = Some (''created_at'', False)
   \<and> limit (HomeScreen_query uid) = Some 50"
  by (simp add: HomeScreen_query_def sb_limit_def sb_order_def sb_eq_def sb_select_def sb_from_def)

lemma select_fails:
  "select_food_entries world_select_fails q = Failure (Error (lit ''connection lost''))"
  "select_data world_select_fails q = Failure (Error (lit ''connection lost''))"
  by (simp_all add: world_select_fails_def)

lemma FoodScreen_one_insert:
  assumes "DbInsert c t r \<in> set (snd (FoodScreen_addFoodEntry sb w s))"
  shows "filter isInsert (snd (FoodScreen_addFoodEntry sb w s)) = [DbInsert sb FOOD_TABLE r]"
proof -
  have ex: "\<exists>e\<in>set (snd (FoodScreen_addFoodEntry sb w s)). isInsert e"
    using assms by force
  from FoodScreen_addFoodEntry_insert[OF ex] FoodScreen_addFoodEntry_reached[of s sb w]
  obtain mid where tr: "snd (FoodScreen_addFoodEntry sb w s) =
           DbInsert sb FOOD_TABLE
             (FoodScreen_row s (trim (foodName s)) (parseInt_or (food_state.calories s) 0)
                (clamp15 (food_state.rating s)))
           # mid @ [DbSelect sb (FoodScreen_query (food_state.userId s))]"
    and mid: "\<forall>e\<in>set mid. \<exists>a b. e = Alert a b"
    by blast
  have "filter isInsert mid = []"
    using mid by (intro isInsert_filter_local) auto
  then show ?thesis
    using tr FoodScreen_inserted_row[OF assms] by simp
qed

lemma HomeScreen_one_insert:
  assumes "DbInsert c t r \<in> set (snd (snd (HomeScreen_addItem sb w s)))"
  shows "filter isInsert (snd (snd (HomeScreen_addItem sb w s))) = [DbInsert sb TABLE r]"
proof -
  have ex: "\<exists>e\<in>set (snd (snd (HomeScreen_addItem sb w s))). isInsert e"
    using assms by force
  from HomeScreen_addItem_insert[OF ex]
  obtain loc evl mid where tr: "snd (snd (HomeScreen_addItem sb w s)) =
              evl @ DbInsert sb TABLE (HomeScreen_row s (trim (text' s)) (clamp15 (mood s)) loc)
                  # mid @ [DbSelect sb (HomeScreen_query (mood_state.userId s))]"
    and evl: "\<forall>e\<in>set evl. isLocal e" and mid: "\<forall>e\<in>set mid. \<exists>a b. e = Alert a b"
    by blast
  have f: "filter isInsert evl = []" "filter isInsert mid = []"
    using evl mid by (auto intro!: isInsert_filter_local)
  have "DbInsert c t r \<notin> set evl" using evl by force
  moreover have "DbInsert c t r \<notin> set mid" using mid by force
  ultimately have "r = HomeScreen_row s (trim (text' s)) (clamp15 (mood s)) loc"
    using assms tr by auto
  then show ?thesis
    using tr f by simp
qed

lemma HomeScreenOld_one_insert:
  assumes "DbInsert c t r \<in> set (snd (snd (HomeScreenOld_addItem sb w s)))"
  shows "filter isInsert (snd (snd (HomeScreenOld_addItem sb w s))) = [DbInsert sb TABLE r]"
proof -
  have ex: "\<exists>e\<in>set (snd (snd (HomeScreenOld_addItem sb w s))). isInsert e"
    using assms by force
  from HomeScreenOld_addItem_insert[OF ex]
  obtain loc evl where tr: "snd (snd (HomeScreenOld_addItem sb w s)) =
              evl @ [DbInsert sb TABLE (HomeScreenOld_row (trim (text' s)) (clamp15 (mood s)) loc),
                     DbSelect sb HomeScreenOld_query]"
    and evl: "\<forall>e\<in>set evl. isLocal e"
    by blast
  have f: "filter isInsert evl = []"
    using evl by (auto intro!: isInsert_filter_local)
  have "DbInsert c t r \<notin> set evl" using evl by force
  then have "r = HomeScreenOld_row (trim (text' s)) (clamp15 (mood s)) loc"
    using assms tr by auto
  then show ?thesis
    using tr f by simp
qed

lemma FoodScreen_row_columns:
  "map_of (FoodScreen_row s n c r) ''food_name'' = Some (JString n)
   \<and> map_of (FoodScreen_row s n c r) ''calories'' = Some (JNumber (of_int c))
   \<and> map_of (FoodScreen_row s n c r) ''rating'' = Some (JNumber (of_int r))
   \<and> map_of (FoodScreen_row s n c r) ''meal_type'' = Some (JString (meal_string (mealType s)))
   \<and> map_of (FoodScreen_row s n c r) ''notes'' =
       Some (if trim (food_state.notes' s) = [] then JNull else JString (trim (food_state.notes' s)))
   \<and> map_of (FoodScreen_row s n c r) ''user_id'' = Some (of_string_opt (food_state.userId s))"
  by (simp add: FoodScreen_row_def str_or_null_def of_string_opt_def)

lemma FoodScreen_row_macros:
  "map_of (FoodScreen_row s n c r) ''protein'' =
     Some (of_number_opt (num_or_null (map_option NutritionInfo.protein (selectedNutrition s))))
   \<and> map_of (FoodScreen_row s n c r) ''carbs'' =
     Some (of_number_opt (num_or_null (map_option NutritionInfo.carbs (selectedNutrition s))))
   \<and> map_of (FoodScreen_row s n c r) ''fat'' =
     Some (of_number_opt (num_or_null (map_option NutritionInfo.fat (selectedNutrition s))))
   \<and> map_of (FoodScreen_row s n c r) ''fiber'' =
     Some (of_number_opt (num_or_null (map_option NutritionInfo.fat (selectedNutrition s))))"
  by (simp add: FoodScreen_row_def)

lemma HomeScreen_row_columns:
  "map_of (HomeScreen_row s t m loc) ''text'' = Some (JString t)
   \<and> map_of (HomeScreen_row s t m loc) ''mood'' = Some (JNumber (of_int m))
   \<and> map_of (HomeScreen_row s t m loc) ''user_id'' = Some (of_string_opt (mood_state.userId s))"
  by (cases loc) (simp add: HomeScreen_row_def)

lemma HomeScreenOld_row_columns:
  "map_of (HomeScreenOld_row t m loc) ''text'' = Some (JString t)
   \<and> map_of (HomeScreenOld_row t m loc) ''mood'' = Some (JNumber (of_int m))
   \<and> map_of (HomeScreenOld_row t m loc) ''user_id'' = None"
  by (cases loc) (simp add: HomeScreenOld_row_def)

lemma truthy_user: "\<not> falsy u \<Longrightarrow> \<exists>uid. u = Some uid \<and> uid \<noteq> [] \<and> of_string_opt u = JString uid"
  by (cases u) (simp_all add: falsy_def of_string_opt_def)

lemma old1_run:
  "snd (snd (HomeScreenOld_addItem sb0 world0 old1)) =
     [DbInsert sb0 ''data''
        [(''text'', JString (lit ''fine day'')), (''mood'', JNumber 5), (''lat'', JNull),
         (''lng'', JNull), (''weather'', JNull)],
      DbSelect sb0 HomeScreenOld_query]"
proof -
  have "HomeScreenOld_locate world0 (useLocation old1) = (Inr (None, None, None), [])"
    by (simp add: old1_def HomeScreenOld_initial_def HomeScreenOld_locate_def)
  then show ?thesis
    using HomeScreenOld_addItem_reached[of old1 world0 _ _ sb0] old1_form
    by (simp add: lit_def HomeScreenOld_row_def TABLE_def of_number_opt_def of_string_opt_def)
qed

lemma food1_selected_inserts:
  "DbInsert sb0 FOOD_TABLE (FoodScreen_row (food1\<lparr>selectedNutrition := x\<rparr>) (lit ''Apple, raw'') 52 3)
     \<in> set (snd (FoodScreen_addFoodEntry sb0 w (food1\<lparr>selectedNutrition := x\<rparr>)))"
  using FoodScreen_addFoodEntry_reached[of "food1\<lparr>selectedNutrition := x\<rparr>" sb0 w] food1_form
  by (auto simp add: lit_def)

lemma HomeScreen_fetchWeather_one_request:
  "length (filter isHttp (snd (HomeScreen_fetchWeather w x y))) \<le> 1"
  using HomeScreen_fetchWeather_events[of w x y] by auto

lemma HomeScreenOld_fetchWeather_one_request:
  "length (filter isHttp (snd (HomeScreenOld_fetchWeather w x y))) \<le> 1"
  by (simp add: HomeScreenOld_fetchWeather_def Let_def split: option.split sum.split list.split)

lemma HomeScreen_fetchWeather_success:
  assumes "EXPO_PUBLIC_WEATHER_API_KEY (process_env w) = Some k" and "k \<noteq> []"
    and "fetch_weather w (WeatherRequest x y k) = Inr resp" and "ok resp"
    and "json resp = Inr data" and "weather_data.weather data = Some (w0 # ws)"
  shows "fst (HomeScreen_fetchWeather w x y) =
           \<lparr>weather = weather_item.main w0,
            temperature = (case weather_data.main data of None \<Rightarrow> None | Some m \<Rightarrow> temp m)\<rparr>"
  using assms by (simp add: HomeScreen_fetchWeather_def Let_def)

lemma HomeScreen_fetchWeather_otherwise:
  assumes "\<not> (\<exists>k resp data w0 ws.
              EXPO_PUBLIC_WEATHER_API_KEY (process_env w) = Some k \<and> k \<noteq> []
              \<and> fetch_weather w (WeatherRequest x y k) = Inr resp \<and> ok resp
              \<and> json resp = Inr data \<and> weather_data.weather data = Some (w0 # ws))"
  shows "fst (HomeScreen_fetchWeather w x y) = null_weather"
  using assms
  by (auto simp add: HomeScreen_fetchWeather_def Let_def split: option.split sum.split list.split)

lemma HomeScreenOld_fetchWeather_success:
  assumes "fetch_weather w (WeatherRequest x y HomeScreenOld_WEATHER_API_KEY) = Inr resp"
    and "json resp = Inr data" and "weather_data.weather data = Some (w0 # ws)"
  shows "fst (HomeScreenOld_fetchWeather w x y) = weather_item.main w0"
  using assms by (simp add: HomeScreenOld_fetchWeather_def Let_def)

lemma HomeScreenOld_fetchWeather_otherwise:
  assumes "\<not> (\<exists>resp data w0 ws.
              fetch_weather w (WeatherRequest x y HomeScreenOld_WEATHER_API_KEY) = Inr resp
              \<and> json resp = Inr data \<and> weather_data.weather data = Some (w0 # ws))"
  shows "fst (HomeScreenOld_fetchWeather w x y) = None"
  using assms
  by (auto simp add: HomeScreenOld_fetchWeather_def Let_def split: option.split sum.split list.split)

lemma searchFoodAPI_one_request:
  "length (filter isHttp (snd (searchFoodAPI w q))) \<le> 1"
  by (simp add: searchFoodAPI_def searchFoodAPI_catch_def split: option.split sum.split)

lemma searchFoodAPI_success:
  assumes "EXPO_PUBLIC_FOOD_API_KEY (process_env w) = Some k" and "k \<noteq> []" and "wellFormed q"
    and "fetch_food w (FoodSearchRequest q k) = Inr resp" and "ok resp"
    and "json resp = Inr data" and "foods data = Some fs"
  shows "searchFoodAPI w q = (map foodToNutrition fs, [HttpGet (FoodSearchRequest q k)])"
  using assms by (simp add: searchFoodAPI_def)

lemma searchFoodAPI_empty_iff:
  "fst (searchFoodAPI w q) = [] \<longleftrightarrow>
     falsy (EXPO_PUBLIC_FOOD_API_KEY (process_env w))
     \<or> (\<exists>k. EXPO_PUBLIC_FOOD_API_KEY (process_env w) = Some k \<and>
            (\<not> wellFormed q
             \<or> (\<exists>e. fetch_food w (FoodSearchRequest q k) = Inl e)
             \<or> (\<exists>resp. fetch_food w (FoodSearchRequest q k) = Inr resp \<and>
                   (\<not> ok resp
                    \<or> (\<exists>e. json resp = Inl e)
                    \<or> (\<exists>data. json resp = Inr data \<and>
                          (foods data = None \<or> foods data = Some []))))))"
  by (auto simp add: searchFoodAPI_def falsy_def split: option.split sum.split)

lemma Math_round_0: "Math_round 0 = 0"
proof -
  have "\<lfloor>(1::rat) / 2\<rfloor> = 0"
    by (rule floor_unique) simp_all
  then show ?thesis by (simp add: Math_round_def)
qed

lemma roundedNutrient_absent:
  assumes "\<forall>n\<in>set ns. nutrientId n \<noteq> Some k"
  shows "roundedNutrient k ns = 0"
proof -
  have "List.find (\<lambda>n. nutrientId n = Some k) ns = None"
    using assms by (simp add: find_None_iff)
  then show ?thesis by (simp add: roundedNutrient_def Math_round_0)
qed

lemma roundedNutrient_present:
  assumes "List.find (\<lambda>n. nutrientId n = Some k) ns = Some n"
  shows "roundedNutrient k ns =
           (case nutrient_value n of None \<Rightarrow> 0 | Some v \<Rightarrow> of_int \<lfloor>v + 1 / 2\<rfloor>)"
  using assms Math_round_0 by (simp add: roundedNutrient_def Math_round_def split: option.split)

lemma foodToNutrition_fields:
  "name (foodToNutrition f) =
     (case description f of None \<Rightarrow> lit ''Unknown Food''
      | Some d \<Rightarrow> if d = [] then lit ''Unknown Food'' else d)
   \<and> NutritionInfo.calories (foodToNutrition f) =
       roundedNutrient 1008 (case foodNutrients f of None \<Rightarrow> [] | Some ns \<Rightarrow> ns)
   \<and> NutritionInfo.protein (foodToNutrition f) =
       roundedNutrient 1003 (case foodNutrients f of None \<Rightarrow> [] | Some ns \<Rightarrow> ns)
   \<and> NutritionInfo.carbs (foodToNutrition f) =
       roundedNutrient 1005 (case foodNutrients f of None \<Rightarrow> [] | Some ns \<Rightarrow> ns)
   \<and> NutritionInfo.fat (foodToNutrition f) =
       roundedNutrient 1004 (case foodNutrients f of None \<Rightarrow> [] | Some ns \<Rightarrow> ns)"
  by (simp add: foodToNutrition_def Let_def)

lemma Math_round_int: "Math_round (of_int n) = of_int n"
proof -
  have "\<lfloor>of_int n + (1::rat) / 2\<rfloor> = n"
    by (rule floor_unique) simp_all
  then show ?thesis by (simp add: Math_round_def)
qed

lemma apple_nutrition:
  "foodToNutrition apple =
     \<lparr>name = lit ''Apple, raw'', NutritionInfo.calories = 52, NutritionInfo.protein = 1,
      NutritionInfo.carbs = 14, NutritionInfo.fat = 0\<rparr>"
proof -
  have "Math_round 52 = 52" "Math_round 14 = 14" "Math_round (1 / 2) = 1"
    using Math_round_int[of 52] Math_round_int[of 14] by (simp_all add: Math_round_def)
  then show ?thesis
    by (simp add: foodToNutrition_def apple_def roundedNutrient_def Math_round_0 lit_def)
qed

lemma supabase_url_missing:
  "falsy (EXPO_PUBLIC_SUPABASE_URL e) \<Longrightarrow>
     supabase rejects e = Inl (Error (lit ''Missing EXPO_PUBLIC_SUPABASE_URL''))"
  by (auto simp add: supabase_def falsy_def Let_def split: option.splits)

lemma supabase_key_missing:
  "\<not> falsy (EXPO_PUBLIC_SUPABASE_URL e) \<Longrightarrow> falsy (EXPO_PUBLIC_SUPABASE_KEY e) \<Longrightarrow>
     supabase rejects e = Inl (Error (lit ''Missing EXPO_PUBLIC_SUPABASE_KEY''))"
  by (auto simp add: supabase_def falsy_def Let_def split: option.splits)

lemma supabase_client:
  "supabase rejects e = Inr c \<Longrightarrow>
     \<exists>u k. EXPO_PUBLIC_SUPABASE_URL e = Some u \<and> u \<noteq> []
          \<and> EXPO_PUBLIC_SUPABASE_KEY e = Some k \<and> k \<noteq> []
          \<and> createClient rejects u k = Inr c \<and> c = \<lparr>supabaseUrl = u, supabaseKey = k\<rparr>"
  by (auto simp add: supabase_def createClient_def Let_def split: option.splits if_splits)

lemma isLocal_client: "isLocal e \<Longrightarrow> client_of e = None"
  by (cases e) simp_all

lemma FoodScreen_addFoodEntry_clients:
  "\<forall>ev\<in>set (snd (FoodScreen_addFoodEntry sb w s)). client_of ev = None \<or> client_of ev = Some sb"
proof (cases "\<exists>e\<in>set (snd (FoodScreen_addFoodEntry sb w s)). isInsert e")
  case True
  from FoodScreen_addFoodEntry_insert[OF True] FoodScreen_addFoodEntry_reached[of s sb w]
  obtain mid r q where "snd (FoodScreen_addFoodEntry sb w s) =
      DbInsert sb FOOD_TABLE r # mid @ [DbSelect sb q]"
    and "\<forall>e\<in>set mid. \<exists>a b. e = Alert a b"
    by blast
  then show ?thesis by auto
next
  case False
  then have "falsy (food_state.userId s) \<or> trim (foodName s) = []
           \<or> length (trim (foodName s)) > 100 \<or> length (food_state.notes' s) > 500
           \<or> parseInt_or (food_state.calories s) 0 < 0
           \<or> parseInt_or (food_state.calories s) 0 > 10000"
    using FoodScreen_addFoodEntry_reached[of s sb w] by (fastforce simp add: not_less)
  from FoodScreen_addFoodEntry_refused[OF this, of sb w]
  show ?thesis by auto
qed

lemma HomeScreen_addItem_clients:
  "\<forall>ev\<in>set (snd (snd (HomeScreen_addItem sb w s))). client_of ev = None \<or> client_of ev = Some sb"
proof (cases "\<exists>e\<in>set (snd (snd (HomeScreen_addItem sb w s))). isInsert e")
  case True
  from HomeScreen_addItem_insert[OF True]
  obtain evl mid r q where "snd (snd (HomeScreen_addItem sb w s)) =
      evl @ DbInsert sb TABLE r # mid @ [DbSelect sb q]"
    and "\<forall>e\<in>set evl. isLocal e" and "\<forall>e\<in>set mid. \<exists>a b. e = Alert a b"
    by blast
  then show ?thesis using isLocal_client by auto
next
  case False
  show ?thesis
  proof (cases "falsy (mood_state.userId s) \<or> trim (text' s) = []")
    case True
    then show ?thesis using HomeScreen_addItem_skip[of s sb w] by simp
  next
    case g: False
    obtain res evl where loc: "HomeScreen_locate w (useLocation s) = (res, evl)"
      by (cases "HomeScreen_locate w (useLocation s)")
    have local: "\<forall>e\<in>set evl. isLocal e"
      using HomeScreen_locate_local[of w "useLocation s"] loc by simp
    show ?thesis
    proof (cases res)
      case (Inl e)
      then have "snd (snd (HomeScreen_addItem sb w s)) = evl"
        using HomeScreen_addItem_rejected[of s w e evl sb] g loc by simp
      then show ?thesis using local isLocal_client by auto
    next
      case (Inr l)
      then have "\<exists>e\<in>set (snd (snd (HomeScreen_addItem sb w s))). isInsert e"
        using HomeScreen_addItem_reached[of s w l evl sb] g loc by auto
      with False show ?thesis by simp
    qed
  qed
qed

lemma HomeScreenOld_addItem_clients:
  "\<forall>ev\<in>set (snd (snd (HomeScreenOld_addItem sb w s))). client_of ev = None \<or> client_of ev = Some sb"
proof (cases "\<exists>e\<in>set (snd (snd (HomeScreenOld_addItem sb w s))). isInsert e")
  case True
  from HomeScreenOld_addItem_insert[OF True]
  obtain evl r where "snd (snd (HomeScreenOld_addItem sb w s)) =
      evl @ [DbInsert sb TABLE r, DbSelect sb HomeScreenOld_query]"
    and "\<forall>e\<in>set evl. isLocal e"
    by blast
  then show ?thesis using isLocal_client by auto
next
  case False
  show ?thesis
  proof (cases "trim (text' s) = []")
    case True
    then show ?thesis using HomeScreenOld_addItem_skip[of s sb w] by simp
  next
    case g: False
    obtain res evl where loc: "HomeScreenOld_locate w (useLocation s) = (res, evl)"
      by (cases "HomeScreenOld_locate w (useLocation s)")
    have local: "\<forall>e\<in>set evl. isLocal e"
      using HomeScreenOld_locate_local[of w "useLocation s"] loc by simp
    show ?thesis
    proof (cases res)
      case (Inl e)
      then have "snd (snd (HomeScreenOld_addItem sb w s)) = evl"
        using HomeScreenOld_addItem_rejected[of s w e evl sb] g loc by simp
      then show ?thesis using local isLocal_client by auto
    next
      case (Inr l)
      then have "\<exists>e\<in>set (snd (snd (HomeScreenOld_addItem sb w s))). isInsert e"
        using HomeScreenOld_addItem_reached[of s w l evl sb] g loc by auto
      with False show ?thesis by simp
    qed
  qed
qed

lemma FoodScreen_clearAllEntries_onPress_clients:
  "\<forall>ev\<in>set (snd (FoodScreen_clearAllEntries_onPress sb w s)).
      client_of ev = None \<or> client_of ev = Some sb"
proof -
  have "snd (FoodScreen_fetchItems sb w s) = [] \<or>
        (\<exists>q. snd (FoodScreen_fetchItems sb w s) = [DbSelect sb q])"
    by (simp add: FoodScreen_fetchItems_trace)
  then show ?thesis
    by (auto simp add: FoodScreen_clearAllEntries_onPress_def Let_def split_beta
          split: option.split)
qed

lemma simple_clients:
  "\<forall>ev\<in>set (snd (FoodScreen_getCurrentUser sb w fs)). client_of ev = None \<or> client_of ev = Some sb"
  "\<forall>ev\<in>set (snd (FoodScreen_fetchItems sb w fs)). client_of ev = None \<or> client_of ev = Some sb"
  "\<forall>ev\<in>set (snd (HomeScreen_getCurrentUser sb w ms)). client_of ev = None \<or> client_of ev = Some sb"
  "\<forall>ev\<in>set (snd (HomeScreen_fetchItems sb w ms)). client_of ev = None \<or> client_of ev = Some sb"
  "\<forall>ev\<in>set (snd (HomeScreenOld_fetchItems sb w os)). client_of ev = None \<or> client_of ev = Some sb"
  "\<forall>ev\<in>set (snd (ProfileScreen_getUser sb w ps)). client_of ev = None \<or> client_of ev = Some sb"
  "\<forall>ev\<in>set (ProfileScreen_handleLogout_onPress sb w). client_of ev = None \<or> client_of ev = Some sb"
  by (simp_all add: FoodScreen_getCurrentUser_def FoodScreen_fetchItems_trace
        HomeScreen_getCurrentUser_def HomeScreen_fetchItems_trace HomeScreenOld_fetchItems_trace
        ProfileScreen_getUser_def ProfileScreen_handleLogout_onPress_def split: option.split)

lemma FoodScreen_fetchItems_error:
  assumes "\<not> falsy (food_state.userId s)"
  shows "food_state.error (fst (FoodScreen_fetchItems sb w s)) =
           map_option message (response_error (select_food_entries w (FoodScreen_query (food_state.userId s))))"
  using assms
  by (simp add: FoodScreen_fetchItems_def Let_def calculateDailySummary_def
        split: option.split)

lemma FoodScreen_addFoodEntry_error:
  assumes "\<not> falsy (food_state.userId s)" and "trim (foodName s) \<noteq> []"
    and "length (trim (foodName s)) \<le> 100" and "length (food_state.notes' s) \<le> 500"
    and "0 \<le> parseInt_or (food_state.calories s) 0"
    and "parseInt_or (food_state.calories s) 0 \<le> 10000"
  shows "food_state.error (fst (FoodScreen_addFoodEntry sb w s)) =
           map_option message
             (response_error (select_food_entries w (FoodScreen_query (food_state.userId s))))"
  using assms
  by (simp add: FoodScreen_addFoodEntry_def Let_def split_beta FoodScreen_fetchItems_error
        split: option.split)

lemma HomeScreen_fetchItems_error:
  assumes "\<not> falsy (mood_state.userId s)"
  shows "mood_base.error (fst (HomeScreen_fetchItems sb w s)) =
           map_option message (response_error (select_data w (HomeScreen_query (mood_state.userId s))))"
  using assms
  by (simp add: HomeScreen_fetchItems_def Let_def split: option.split)

lemma HomeScreen_addItem_error:
  assumes "\<not> falsy (mood_state.userId s)" and "trim (text' s) \<noteq> []"
    and "HomeScreen_locate w (useLocation s) = (Inr loc, evl)"
  shows "mood_base.error (fst (snd (HomeScreen_addItem sb w s))) =
           map_option message (response_error (select_data w (HomeScreen_query (mood_state.userId s))))"
  using assms
  by (simp add: HomeScreen_addItem_def Let_def split_beta HomeScreen_fetchItems_error
        split: option.split)

text \<open>The user id a screen holds: \<open>getCurrentUser\<close> sets it from
  \<open>supabase.auth.getUser()\<close>, and the other handlers leave it as it is.\<close>

lemma FoodScreen_getCurrentUser_userId:
  "food_state.userId (fst (FoodScreen_getCurrentUser sb w s)) =
     (case auth_getUser w of None \<Rightarrow> None | Some u \<Rightarrow> str_or_null (User.id' u))"
  by (simp add: FoodScreen_getCurrentUser_def)

lemma HomeScreen_getCurrentUser_userId:
  "mood_state.userId (fst (HomeScreen_getCurrentUser sb w s)) =
     (case auth_getUser w of None \<Rightarrow> None | Some u \<Rightarrow> str_or_null (User.id' u))"
  by (simp add: HomeScreen_getCurrentUser_def)

lemma FoodScreen_signed_in:
  assumes "auth_getUser w = Some u" and "User.id' u \<noteq> []"
  shows "food_state.userId (fst (FoodScreen_getCurrentUser sb w s)) = Some (User.id' u)"
  using assms by (simp add: FoodScreen_getCurrentUser_userId str_or_null_def)

lemma HomeScreen_signed_in:
  assumes "auth_getUser w = Some u" and "User.id' u \<noteq> []"
  shows "mood_state.userId (fst (HomeScreen_getCurrentUser sb w s)) = Some (User.id' u)"
  using assms by (simp add: HomeScreen_getCurrentUser_userId str_or_null_def)

lemma FoodScreen_signed_out:
  assumes "auth_getUser w = None \<or> (\<exists>u. auth_getUser w = Some u \<and> User.id' u = [])"
  shows "falsy (food_state.userId (fst (FoodScreen_getCurrentUser sb w s)))"
  using assms by (auto simp add: FoodScreen_getCurrentUser_userId str_or_null_def falsy_def)

lemma HomeScreen_signed_out:
  assumes "auth_getUser w = None \<or> (\<exists>u. auth_getUser w = Some u \<and> User.id' u = [])"
  shows "falsy (mood_state.userId (fst (HomeScreen_getCurrentUser sb w s)))"
  using assms by (auto simp add: HomeScreen_getCurrentUser_userId str_or_null_def falsy_def)

lemma loaded_user:
  assumes "\<not> falsy (case auth_getUser w of None \<Rightarrow> None | Some u \<Rightarrow> str_or_null (User.id' u))"
  shows "\<exists>u. auth_getUser w = Some u \<and> User.id' u \<noteq> []
           \<and> (case auth_getUser w of None \<Rightarrow> None | Some u \<Rightarrow> str_or_null (User.id' u))
               = Some (User.id' u)"
  using assms by (cases "auth_getUser w") (auto simp add: falsy_def str_or_null_def split: if_splits)

lemma FoodScreen_fetchItems_keeps_userId:
  "food_state.userId (fst (FoodScreen_fetchItems sb w s)) = food_state.userId s"
  by (simp add: FoodScreen_fetchItems_def Let_def calculateDailySummary_def split: option.split)

lemma HomeScreen_fetchItems_keeps_userId:
  "mood_state.userId (fst (HomeScreen_fetchItems sb w s)) = mood_state.userId s"
  by (simp add: HomeScreen_fetchItems_def Let_def split: option.split)

lemma FoodScreen_addFoodEntry_keeps_userId:
  "food_state.userId (fst (FoodScreen_addFoodEntry sb w s)) = food_state.userId s"
  by (simp add: FoodScreen_addFoodEntry_def Let_def split_beta FoodScreen_fetchItems_keeps_userId
        split: option.split)

lemma HomeScreen_addItem_keeps_userId:
  "mood_state.userId (fst (snd (HomeScreen_addItem sb w s))) = mood_state.userId s"
  by (simp add: HomeScreen_addItem_def Let_def split_beta HomeScreen_fetchItems_keeps_userId
        split: option.split sum.split prod.split)

lemma world_users:
  "auth_getUser world0 = Some \<lparr>User.id' = lit ''u1'', email = None\<rparr>"
  "auth_getUser world_select_fails = Some \<lparr>User.id' = lit ''u1'', email = None\<rparr>"
  "auth_getUser (world0\<lparr>auth_getUser := None\<rparr>) = None"
  by (simp_all add: world0_def world_select_fails_def)

lemma food1_loaded:
  "fst (FoodScreen_getCurrentUser sb0 world0 (food1\<lparr>food_state.userId := None\<rparr>)) = food1"
  by (simp add: FoodScreen_getCurrentUser_def world0_def str_or_null_def food1_def lit_def)

lemma mood1_loaded:
  "fst (HomeScreen_getCurrentUser sb0 world0 (mood1\<lparr>userId := None\<rparr>)) = mood1"
  by (simp add: HomeScreen_getCurrentUser_def world0_def str_or_null_def mood1_def lit_def)

section \<open>The claims\<close>

text \<open>
  C1. The add operations validate the form before any insert. If the trace of
  \<open>addFoodEntry\<close> holds an insert, then a user id is present, the trimmed food name
  is non-empty and at most 100 code units long, the notes are at most 500 code
  units long, and \<open>parseInt(calories, 10) || 0\<close> lies between 0 and 10000. If the
  trace of \<open>addItem\<close> on the mood screen holds an insert, then a user id is present
  and the trimmed text is non-empty. Read from right to left: an input that
  violates one of the conditions leads to no insert.
\<close>

theorem C1_insert_only_after_validation:
  "(DbInsert c1 t1 r1 \<in> set (snd (FoodScreen_addFoodEntry sb w fs)) \<longrightarrow>
      \<not> falsy (food_state.userId fs) \<and> trim (foodName fs) \<noteq> []
      \<and> length (trim (foodName fs)) \<le> 100 \<and> length (food_state.notes' fs) \<le> 500
      \<and> 0 \<le> parseInt_or (food_state.calories fs) 0
      \<and> parseInt_or (food_state.calories fs) 0 \<le> 10000)
   \<and> (DbInsert c2 t2 r2 \<in> set (snd (snd (HomeScreen_addItem sb w ms))) \<longrightarrow>
      \<not> falsy (mood_state.userId ms) \<and> trim (text' ms) \<noteq> [])"
proof (intro conjI impI)
  assume ins: "DbInsert c1 t1 r1 \<in> set (snd (FoodScreen_addFoodEntry sb w fs))"
  then have "\<exists>e\<in>set (snd (FoodScreen_addFoodEntry sb w fs)). isInsert e" by force
  from FoodScreen_addFoodEntry_insert[OF this]
  show "\<not> falsy (food_state.userId fs)" and "trim (foodName fs) \<noteq> []"
    and "length (trim (foodName fs)) \<le> 100" and "length (food_state.notes' fs) \<le> 500"
    and "0 \<le> parseInt_or (food_state.calories fs) 0"
    and "parseInt_or (food_state.calories fs) 0 \<le> 10000"
    by simp_all
next
  assume ins: "DbInsert c2 t2 r2 \<in> set (snd (snd (HomeScreen_addItem sb w ms)))"
  then have "\<exists>e\<in>set (snd (snd (HomeScreen_addItem sb w ms))). isInsert e" by force
  from HomeScreen_addItem_insert[OF this]
  show "\<not> falsy (mood_state.userId ms)" and "trim (text' ms) \<noteq> []"
    by simp_all
qed

text \<open>C1 at the sample food form and the sample mood form, in the world where every call succeeds.\<close>

theorem C1_witness:
  "DbInsert sb0 FOOD_TABLE (FoodScreen_row food1 (lit ''Apple, raw'') 52 3)
     \<in> set (snd (FoodScreen_addFoodEntry sb0 world0 food1))
   \<and> \<not> falsy (food_state.userId food1) \<and> trim (foodName food1) \<noteq> []
   \<and> length (trim (foodName food1)) \<le> 100 \<and> length (food_state.notes' food1) \<le> 500
   \<and> 0 \<le> parseInt_or (food_state.calories food1) 0
   \<and> parseInt_or (food_state.calories food1) 0 \<le> 10000
   \<and> DbInsert sb0 TABLE
       (HomeScreen_row mood1 (lit ''fine day'') 4 (Some 52, Some 13, Some (lit ''Rain''), Some (43 / 2)))
     \<in> set (snd (snd (HomeScreen_addItem sb0 world0 mood1)))
   \<and> \<not> falsy (mood_state.userId mood1) \<and> trim (text' mood1) \<noteq> []"
  using C1_insert_only_after_validation
          [where sb = sb0 and w = world0 and fs = food1 and ms = mood1
             and ?c1.0 = sb0 and ?t1.0 = FOOD_TABLE
             and ?r1.0 = "FoodScreen_row food1 (lit ''Apple, raw'') 52 3"
             and ?c2.0 = sb0 and ?t2.0 = TABLE
             and ?r2.0 = "HomeScreen_row mood1 (lit ''fine day'') 4
                           (Some 52, Some 13, Some (lit ''Rain''), Some (43 / 2))"]
        food1_inserts[of world0] mood1_inserts[OF world0_locate]
  by simp

text \<open>
  C2. A failed insert does not leave its message in the error state. With the
  food form filled in, a backend that rejects the insert with the message
  \<open>insert failed\<close> and then answers the select, \<open>addFoodEntry\<close> issues the insert
  and the select and ends with \<open>error\<close> null: \<open>setError(insErr.message)\<close> is
  followed by \<open>fetchItems\<close>, which starts with \<open>setError(null)\<close>. \<open>addItem\<close> on the
  mood screen ends the same way. In general (\<open>FoodScreen_addFoodEntry_error\<close>,
  \<open>HomeScreen_addItem_error\<close>) the error state after an add that reached the
  insert is the message of the select's error, or null: the answer to the insert
  has no part in it. A failed select does leave its message
  (\<open>FoodScreen_fetchItems_failure\<close>, \<open>HomeScreen_fetchItems_failure\<close>).
\<close>

theorem C2_insert_error_is_overwritten:
  "snd (FoodScreen_addFoodEntry sb0 world_insert_fails food1) =
     [DbInsert sb0 FOOD_TABLE (FoodScreen_row food1 (lit ''Apple, raw'') 52 3),
      DbSelect sb0 (FoodScreen_query (Some (lit ''u1'')))]
   \<and> db_insert world_insert_fails FOOD_TABLE (FoodScreen_row food1 (lit ''Apple, raw'') 52 3)
       = Some (Error (lit ''insert failed''))
   \<and> select_food_entries world_insert_fails (FoodScreen_query (Some (lit ''u1''))) = Success []
   \<and> food_state.error (fst (FoodScreen_addFoodEntry sb0 world_insert_fails food1)) = None
   \<and> snd (snd (HomeScreen_addItem sb0 world_insert_fails mood1)) =
     [RequestForegroundPermissions, GetCurrentPosition,
      HttpGet (WeatherRequest 52 13 (lit ''weather-key'')),
      DbInsert sb0 TABLE
        (HomeScreen_row mood1 (lit ''fine day'') 4 (Some 52, Some 13, Some (lit ''Rain''), Some (43 / 2))),
      DbSelect sb0 (HomeScreen_query (Some (lit ''u1'')))]
   \<and> mood_base.error (fst (snd (HomeScreen_addItem sb0 world_insert_fails mood1))) = None"
proof -
  have u: "useLocation mood1" "mood_state.userId mood1 = Some (lit ''u1'')"
    "food_state.userId food1 = Some (lit ''u1'')"
    by (simp_all add: mood1_def HomeScreen_initial_def food1_def FoodScreen_initial_def)
  have sel: "select_food_entries world_insert_fails q = Success []"
    "select_data world_insert_fails q' = Success []" for q q'
    by (simp_all add: world_insert_fails_def world0_def)
  have loc: "HomeScreen_locate world_insert_fails (useLocation mood1) =
     (Inr (Some 52, Some 13, Some (lit ''Rain''), Some (43 / 2)),
      [RequestForegroundPermissions, GetCurrentPosition,
       HttpGet (WeatherRequest 52 13 (lit ''weather-key''))])"
    using u world0_locate_insert_fails by (simp add: world_insert_fails_def)
  have a: "food_state.error (fst (FoodScreen_addFoodEntry sb0 world_insert_fails food1)) = None"
    using FoodScreen_addFoodEntry_error[of food1 sb0 world_insert_fails] food1_form
    by (simp add: sel response_error_def lit_def)
  have b: "mood_base.error (fst (snd (HomeScreen_addItem sb0 world_insert_fails mood1))) = None"
    using HomeScreen_addItem_error[OF _ _ loc, of sb0] mood1_form
    by (simp add: sel response_error_def lit_def)
  show ?thesis
    using a b food1_run_insert_fails mood1_run_insert_fails sel
    by (simp add: world_insert_fails_def)
qed

text \<open>
  C3. An add operation that reaches the insert runs validate, insert, refresh in
  that order. If the trace of \<open>addFoodEntry\<close> holds an insert, every guard has
  passed, the insert is the first event, the select of \<open>fetchItems\<close> is the last,
  and no other insert or select lies between them. For \<open>addItem\<close> on the mood
  screen the same holds, with the location and weather events before the insert.
  Nothing is assumed about the answer to the insert: the select follows a failed
  insert as it follows an accepted one.
\<close>

theorem C3_validate_insert_refresh:
  "(DbInsert c1 t1 r1 \<in> set (snd (FoodScreen_addFoodEntry sb w fs)) \<longrightarrow>
      (\<not> falsy (food_state.userId fs) \<and> trim (foodName fs) \<noteq> []
       \<and> length (trim (foodName fs)) \<le> 100 \<and> length (food_state.notes' fs) \<le> 500
       \<and> 0 \<le> parseInt_or (food_state.calories fs) 0
       \<and> parseInt_or (food_state.calories fs) 0 \<le> 10000)
      \<and> (\<exists>mid. snd (FoodScreen_addFoodEntry sb w fs) =
                  DbInsert c1 t1 r1 # mid @ [DbSelect sb (FoodScreen_query (food_state.userId fs))]
                \<and> (\<forall>e\<in>set mid. \<not> isInsert e \<and> \<not> isSelect e)))
   \<and> (DbInsert c2 t2 r2 \<in> set (snd (snd (HomeScreen_addItem sb w ms))) \<longrightarrow>
      (\<not> falsy (mood_state.userId ms) \<and> trim (text' ms) \<noteq> [])
      \<and> (\<exists>pre mid. snd (snd (HomeScreen_addItem sb w ms)) =
                  pre @ DbInsert c2 t2 r2 # mid @ [DbSelect sb (HomeScreen_query (mood_state.userId ms))]
                \<and> (\<forall>e\<in>set pre \<union> set mid. \<not> isInsert e \<and> \<not> isSelect e)))"
proof (intro conjI impI)
  assume ins: "DbInsert c1 t1 r1 \<in> set (snd (FoodScreen_addFoodEntry sb w fs))"
  then have ex: "\<exists>e\<in>set (snd (FoodScreen_addFoodEntry sb w fs)). isInsert e" by force
  note g = FoodScreen_addFoodEntry_insert[OF ex]
  from g show "\<not> falsy (food_state.userId fs)" and "trim (foodName fs) \<noteq> []"
    and "length (trim (foodName fs)) \<le> 100" and "length (food_state.notes' fs) \<le> 500"
    and "0 \<le> parseInt_or (food_state.calories fs) 0"
    and "parseInt_or (food_state.calories fs) 0 \<le> 10000"
    by simp_all
  from g FoodScreen_addFoodEntry_reached[of fs sb w]
  obtain mid where tr: "snd (FoodScreen_addFoodEntry sb w fs) =
           DbInsert sb FOOD_TABLE
             (FoodScreen_row fs (trim (foodName fs)) (parseInt_or (food_state.calories fs) 0)
                (clamp15 (food_state.rating fs)))
           # mid @ [DbSelect sb (FoodScreen_query (food_state.userId fs))]"
    and mid: "\<forall>e\<in>set mid. \<exists>a b. e = Alert a b"
    by blast
  have row: "c1 = sb \<and> t1 = FOOD_TABLE \<and>
         r1 = FoodScreen_row fs (trim (foodName fs)) (parseInt_or (food_state.calories fs) 0)
               (clamp15 (food_state.rating fs))"
    using FoodScreen_inserted_row[OF ins] .
  have "\<forall>e\<in>set mid. \<not> isInsert e \<and> \<not> isSelect e"
    using mid by auto
  with tr row
  show "\<exists>mid. snd (FoodScreen_addFoodEntry sb w fs) =
                  DbInsert c1 t1 r1 # mid @ [DbSelect sb (FoodScreen_query (food_state.userId fs))]
                \<and> (\<forall>e\<in>set mid. \<not> isInsert e \<and> \<not> isSelect e)"
    by blast
next
  assume ins: "DbInsert c2 t2 r2 \<in> set (snd (snd (HomeScreen_addItem sb w ms)))"
  then have ex: "\<exists>e\<in>set (snd (snd (HomeScreen_addItem sb w ms))). isInsert e" by force
  note g = HomeScreen_addItem_insert[OF ex]
  from g show "\<not> falsy (mood_state.userId ms)" and "trim (text' ms) \<noteq> []"
    by simp_all
  from g obtain loc evl mid where
    tr: "snd (snd (HomeScreen_addItem sb w ms)) =
              evl @ DbInsert sb TABLE (HomeScreen_row ms (trim (text' ms)) (clamp15 (mood ms)) loc)
                  # mid @ [DbSelect sb (HomeScreen_query (mood_state.userId ms))]"
    and evl: "\<forall>e\<in>set evl. isLocal e" and mid: "\<forall>e\<in>set mid. \<exists>a b. e = Alert a b"
    by blast
  have "DbInsert c2 t2 r2 \<notin> set evl" using evl by force
  moreover have "DbInsert c2 t2 r2 \<notin> set mid" using mid by force
  ultimately have eq: "DbInsert c2 t2 r2 =
      DbInsert sb TABLE (HomeScreen_row ms (trim (text' ms)) (clamp15 (mood ms)) loc)"
    using ins tr by auto
  have "\<forall>e\<in>set evl \<union> set mid. \<not> isInsert e \<and> \<not> isSelect e"
    using evl mid isLocal_not_backend by auto
  with tr eq
  show "\<exists>pre mid. snd (snd (HomeScreen_addItem sb w ms)) =
                  pre @ DbInsert c2 t2 r2 # mid @ [DbSelect sb (HomeScreen_query (mood_state.userId ms))]
                \<and> (\<forall>e\<in>set pre \<union> set mid. \<not> isInsert e \<and> \<not> isSelect e)"
    by metis
qed

text \<open>C3 at the sample forms, with a backend that rejects the insert: the select still follows.\<close>

theorem C3_witness:
  "DbInsert sb0 FOOD_TABLE (FoodScreen_row food1 (lit ''Apple, raw'') 52 3)
     \<in> set (snd (FoodScreen_addFoodEntry sb0 world_insert_fails food1))
   \<and> db_insert world_insert_fails FOOD_TABLE (FoodScreen_row food1 (lit ''Apple, raw'') 52 3)
       = Some (Error (lit ''insert failed''))
   \<and> snd (FoodScreen_addFoodEntry sb0 world_insert_fails food1) =
       [DbInsert sb0 FOOD_TABLE (FoodScreen_row food1 (lit ''Apple, raw'') 52 3),
        DbSelect sb0 (FoodScreen_query (food_state.userId food1))]
   \<and> DbInsert sb0 TABLE
        (HomeScreen_row mood1 (lit ''fine day'') 4 (Some 52, Some 13, Some (lit ''Rain''), Some (43 / 2)))
      \<in> set (snd (snd (HomeScreen_addItem sb0 world_insert_fails mood1)))
   \<and> snd (snd (HomeScreen_addItem sb0 world_insert_fails mood1)) =
       [RequestForegroundPermissions, GetCurrentPosition,
        HttpGet (WeatherRequest 52 13 (lit ''weather-key''))]
       @ DbInsert sb0 TABLE
          (HomeScreen_row mood1 (lit ''fine day'') 4 (Some 52, Some 13, Some (lit ''Rain''), Some (43 / 2)))
       # [] @ [DbSelect sb0 (HomeScreen_query (mood_state.userId mood1))]"
  using C3_validate_insert_refresh
          [where sb = sb0 and w = world_insert_fails and fs = food1 and ms = mood1
             and ?c1.0 = sb0 and ?t1.0 = FOOD_TABLE
             and ?r1.0 = "FoodScreen_row food1 (lit ''Apple, raw'') 52 3"
             and ?c2.0 = sb0 and ?t2.0 = TABLE
             and ?r2.0 = "HomeScreen_row mood1 (lit ''fine day'') 4
                           (Some 52, Some 13, Some (lit ''Rain''), Some (43 / 2))"]
        food1_run_insert_fails mood1_run_insert_fails
  by (simp add: world_insert_fails_def food1_def FoodScreen_initial_def mood1_def HomeScreen_initial_def)

text \<open>
  C4, as amended. Either version of \<open>fetchWeather\<close> issues at most one HTTP request
  and never a second one. The current version returns
  \<open>{ weather: data.weather[0].main, temperature: data.main?.temp ?? null }\<close> when
  the API key is set, the request resolves to an ok response, its body parses and
  holds a non-empty weather array; in every other case it returns
  \<open>{ weather: null, temperature: null }\<close>. The earlier version has a built-in key
  and does not look at \<open>resp.ok\<close>: it returns the string \<open>data.weather[0].main\<close>
  whenever the request resolves and the body parses and holds a non-empty weather
  array, and null in every other case.
\<close>

theorem C4_fetchWeather_single_fetch_and_map:
  "length (filter isHttp (snd (HomeScreen_fetchWeather w x y))) \<le> 1
   \<and> length (filter isHttp (snd (HomeScreenOld_fetchWeather w x y))) \<le> 1
   \<and> (\<forall>k resp data w0 ws.
         EXPO_PUBLIC_WEATHER_API_KEY (process_env w) = Some k \<and> k \<noteq> []
         \<and> fetch_weather w (WeatherRequest x y k) = Inr resp \<and> ok resp
         \<and> json resp = Inr data \<and> weather_data.weather data = Some (w0 # ws)
         \<longrightarrow> fst (HomeScreen_fetchWeather w x y) =
               \<lparr>weather = weather_item.main w0,
                temperature = (case weather_data.main data of None \<Rightarrow> None | Some m \<Rightarrow> temp m)\<rparr>)
   \<and> (\<not> (\<exists>k resp data w0 ws.
              EXPO_PUBLIC_WEATHER_API_KEY (process_env w) = Some k \<and> k \<noteq> []
              \<and> fetch_weather w (WeatherRequest x y k) = Inr resp \<and> ok resp
              \<and> json resp = Inr data \<and> weather_data.weather data = Some (w0 # ws))
         \<longrightarrow> fst (HomeScreen_fetchWeather w x y) = null_weather)
   \<and> (\<forall>resp data w0 ws.
         fetch_weather w (WeatherRequest x y HomeScreenOld_WEATHER_API_KEY) = Inr resp
         \<and> json resp = Inr data \<and> weather_data.weather data = Some (w0 # ws)
         \<longrightarrow> fst (HomeScreenOld_fetchWeather w x y) = weather_item.main w0)
   \<and> (\<not> (\<exists>resp data w0 ws.
              fetch_weather w (WeatherRequest x y HomeScreenOld_WEATHER_API_KEY) = Inr resp
              \<and> json resp = Inr data \<and> weather_data.weather data = Some (w0 # ws))
         \<longrightarrow> fst (HomeScreenOld_fetchWeather w x y) = None)"
  using HomeScreen_fetchWeather_one_request[of w x y]
    HomeScreenOld_fetchWeather_one_request[of w x y]
    HomeScreen_fetchWeather_success[of w _ x y]
    HomeScreen_fetchWeather_otherwise[of w x y]
    HomeScreenOld_fetchWeather_success[of w x y]
    HomeScreenOld_fetchWeather_otherwise[of w x y]
  by blast

text \<open>
  Against C4 as first stated, which covers the earlier \<open>fetchWeather\<close> too and has every
  non-ok response answered by nulls: given a response with status 500 whose body
  holds a weather array, the earlier version returns the string \<open>Rain\<close>.
\<close>

theorem C4_counterexample:
  "fetch_weather world_weather_500 (WeatherRequest 52 13 HomeScreenOld_WEATHER_API_KEY)
     = Inr \<lparr>ok = False, status = 500, json = Inr rain\<rparr>
   \<and> fst (HomeScreenOld_fetchWeather world_weather_500 52 13) = Some (lit ''Rain'')"
  by (simp add: world_weather_500_def HomeScreenOld_fetchWeather_def Let_def rain_def)

text \<open>C4 at a successful weather lookup, at a response with status 500 (current version) and at the earlier version.\<close>

theorem C4_witness:
  "EXPO_PUBLIC_WEATHER_API_KEY (process_env world0) = Some (lit ''weather-key'')
   \<and> fetch_weather world0 (WeatherRequest 52 13 (lit ''weather-key''))
       = Inr \<lparr>ok = True, status = 200, json = Inr rain\<rparr>
   \<and> fst (HomeScreen_fetchWeather world0 52 13)
       = \<lparr>weather = Some (lit ''Rain''), temperature = Some (43 / 2)\<rparr>
   \<and> snd (HomeScreen_fetchWeather world0 52 13)
       = [HttpGet (WeatherRequest 52 13 (lit ''weather-key''))]
   \<and> fst (HomeScreen_fetchWeather world_weather_500 52 13) = null_weather
   \<and> fst (HomeScreenOld_fetchWeather world0 52 13) = Some (lit ''Rain'')"
proof -
  have k: "EXPO_PUBLIC_WEATHER_API_KEY (process_env world0) = Some (lit ''weather-key'')"
    "lit ''weather-key'' \<noteq> []"
    by (simp_all add: world0_def env0_def lit_def)
  have f: "fetch_weather world0 (WeatherRequest 52 13 (lit ''weather-key''))
       = Inr \<lparr>ok = True, status = 200, json = Inr rain\<rparr>"
    "fetch_weather world0 (WeatherRequest 52 13 HomeScreenOld_WEATHER_API_KEY)
       = Inr \<lparr>ok = True, status = 200, json = Inr rain\<rparr>"
    by (simp_all add: world0_def)
  have r: "weather_data.weather rain = Some [\<lparr>weather_item.main = Some (lit ''Rain'')\<rparr>]"
    "weather_data.main rain = Some \<lparr>temp = Some (43 / 2)\<rparr>"
    by (simp_all add: rain_def)
  have n: "\<not> (\<exists>k resp data w0 ws.
              EXPO_PUBLIC_WEATHER_API_KEY (process_env world_weather_500) = Some k \<and> k \<noteq> []
              \<and> fetch_weather world_weather_500 (WeatherRequest 52 13 k) = Inr resp \<and> ok resp
              \<and> json resp = Inr data \<and> weather_data.weather data = Some (w0 # ws))"
    by (auto simp add: world_weather_500_def)
  have a: "fst (HomeScreen_fetchWeather world0 52 13)
       = \<lparr>weather = Some (lit ''Rain''), temperature = Some (43 / 2)\<rparr>"
    and c: "fst (HomeScreenOld_fetchWeather world0 52 13) = Some (lit ''Rain'')"
    using C4_fetchWeather_single_fetch_and_map[of world0 52 13] k f r by force+
  have b: "fst (HomeScreen_fetchWeather world_weather_500 52 13) = null_weather"
    using C4_fetchWeather_single_fetch_and_map[of world_weather_500 52 13] n by blast
  have t: "snd (HomeScreen_fetchWeather world0 52 13)
       = [HttpGet (WeatherRequest 52 13 (lit ''weather-key''))]"
    using k f by (simp add: HomeScreen_fetchWeather_def Let_def rain_def)
  show ?thesis using k f a b c t by simp
qed

text \<open>
  C5, as amended. \<open>searchFoodAPI\<close> issues at most one HTTP request. When the API
  key is set, the query can be encoded, the request resolves to an ok response and
  its body parses and holds a \<open>foods\<close> array, the result is that array mapped in
  order: \<open>name\<close> is the description, or \<open>Unknown Food\<close> when that is missing or
  empty; \<open>calories\<close>, \<open>protein\<close>, \<open>carbs\<close> and \<open>fat\<close> are the rounded values
  of the first nutrients with ids 1008, 1003, 1005 and 1004, and 0 when there is
  no such nutrient or it has no value. The result is the empty list exactly when
  the API key is missing, an exception is thrown (the query cannot be encoded, the
  request rejects, the body does not parse), the response is not ok, or the body
  holds no \<open>foods\<close> array or an empty one.
\<close>

theorem C5_searchFoodAPI_single_fetch_and_map:
  "length (filter isHttp (snd (searchFoodAPI w q))) \<le> 1
   \<and> (\<forall>k resp data fs.
         EXPO_PUBLIC_FOOD_API_KEY (process_env w) = Some k \<and> k \<noteq> [] \<and> wellFormed q
         \<and> fetch_food w (FoodSearchRequest q k) = Inr resp \<and> ok resp
         \<and> json resp = Inr data \<and> foods data = Some fs
         \<longrightarrow> fst (searchFoodAPI w q) = map foodToNutrition fs)
   \<and> (name (foodToNutrition f) =
         (case description f of None \<Rightarrow> lit ''Unknown Food''
          | Some d \<Rightarrow> if d = [] then lit ''Unknown Food'' else d)
       \<and> NutritionInfo.calories (foodToNutrition f) =
           roundedNutrient 1008 (case foodNutrients f of None \<Rightarrow> [] | Some ns \<Rightarrow> ns)
       \<and> NutritionInfo.protein (foodToNutrition f) =
           roundedNutrient 1003 (case foodNutrients f of None \<Rightarrow> [] | Some ns \<Rightarrow> ns)
       \<and> NutritionInfo.carbs (foodToNutrition f) =
           roundedNutrient 1005 (case foodNutrients f of None \<Rightarrow> [] | Some ns \<Rightarrow> ns)
       \<and> NutritionInfo.fat (foodToNutrition f) =
           roundedNutrient 1004 (case foodNutrients f of None \<Rightarrow> [] | Some ns \<Rightarrow> ns))
   \<and> ((\<forall>n\<in>set ns. nutrientId n \<noteq> Some i) \<longrightarrow> roundedNutrient i ns = 0)
   \<and> (\<forall>n. List.find (\<lambda>n. nutrientId n = Some i) ns = Some n \<longrightarrow>
          roundedNutrient i ns =
            (case nutrient_value n of None \<Rightarrow> 0 | Some v \<Rightarrow> of_int \<lfloor>v + 1 / 2\<rfloor>))
   \<and> (fst (searchFoodAPI w q) = [] \<longleftrightarrow>
         falsy (EXPO_PUBLIC_FOOD_API_KEY (process_env w))
         \<or> (\<exists>k. EXPO_PUBLIC_FOOD_API_KEY (process_env w) = Some k \<and>
                (\<not> wellFormed q
                 \<or> (\<exists>e. fetch_food w (FoodSearchRequest q k) = Inl e)
                 \<or> (\<exists>resp. fetch_food w (FoodSearchRequest q k) = Inr resp \<and>
                       (\<not> ok resp
                        \<or> (\<exists>e. json resp = Inl e)
                        \<or> (\<exists>data. json resp = Inr data \<and>
                              (foods data = None \<or> foods data = Some [])))))))"
proof (intro conjI)
  show "length (filter isHttp (snd (searchFoodAPI w q))) \<le> 1"
    by (rule searchFoodAPI_one_request)
  show "\<forall>k resp data fs.
         EXPO_PUBLIC_FOOD_API_KEY (process_env w) = Some k \<and> k \<noteq> [] \<and> wellFormed q
         \<and> fetch_food w (FoodSearchRequest q k) = Inr resp \<and> ok resp
         \<and> json resp = Inr data \<and> foods data = Some fs
         \<longrightarrow> fst (searchFoodAPI w q) = map foodToNutrition fs"
    using searchFoodAPI_success[of w _ q] by auto
  show "(\<forall>n\<in>set ns. nutrientId n \<noteq> Some i) \<longrightarrow> roundedNutrient i ns = 0"
    using roundedNutrient_absent by blast
  show "\<forall>n. List.find (\<lambda>n. nutrientId n = Some i) ns = Some n \<longrightarrow>
          roundedNutrient i ns =
            (case nutrient_value n of None \<Rightarrow> 0 | Some v \<Rightarrow> of_int \<lfloor>v + 1 / 2\<rfloor>)"
    using roundedNutrient_present by blast
  show "fst (searchFoodAPI w q) = [] \<longleftrightarrow>
         falsy (EXPO_PUBLIC_FOOD_API_KEY (process_env w))
         \<or> (\<exists>k. EXPO_PUBLIC_FOOD_API_KEY (process_env w) = Some k \<and>
                (\<not> wellFormed q
                 \<or> (\<exists>e. fetch_food w (FoodSearchRequest q k) = Inl e)
                 \<or> (\<exists>resp. fetch_food w (FoodSearchRequest q k) = Inr resp \<and>
                       (\<not> ok resp
                        \<or> (\<exists>e. json resp = Inl e)
                        \<or> (\<exists>data. json resp = Inr data \<and>
                              (foods data = None \<or> foods data = Some []))))))"
    by (rule searchFoodAPI_empty_iff)
qed (simp_all add: foodToNutrition_fields)

text \<open>
  Against C5 as first stated, which has the empty list returned exactly in the four
  failure cases: a search that finds nothing is none of them, the key is set, the
  response is ok, the body holds the array \<open>foods: []\<close>, nothing is thrown, and the
  result is the empty list.
\<close>

theorem C5_counterexample:
  "EXPO_PUBLIC_FOOD_API_KEY (process_env world_no_results) = Some (lit ''food-key'')
   \<and> wellFormed (lit ''zzzz'')
   \<and> fetch_food world_no_results (FoodSearchRequest (lit ''zzzz'') (lit ''food-key''))
       = Inr \<lparr>ok = True, status = 200, json = Inr \<lparr>foods = Some []\<rparr>\<rparr>
   \<and> searchFoodAPI world_no_results (lit ''zzzz'')
       = ([], [HttpGet (FoodSearchRequest (lit ''zzzz'') (lit ''food-key''))])"
  by (simp add: searchFoodAPI_def world_no_results_def world0_def env0_def lit_def)

text \<open>C5 at a search that finds one food, at nutrient lists with and without the id asked for, at a search without hits and with no API key.\<close>

theorem C5_witness:
  "EXPO_PUBLIC_FOOD_API_KEY (process_env world0) = Some (lit ''food-key'')
   \<and> wellFormed (lit ''apple'')
   \<and> fetch_food world0 (FoodSearchRequest (lit ''apple'') (lit ''food-key''))
       = Inr \<lparr>ok = True, status = 200, json = Inr \<lparr>foods = Some [apple]\<rparr>\<rparr>
   \<and> fst (searchFoodAPI world0 (lit ''apple''))
       = [\<lparr>name = lit ''Apple, raw'', NutritionInfo.calories = 52, NutritionInfo.protein = 1,
           NutritionInfo.carbs = 14, NutritionInfo.fat = 0\<rparr>]
   \<and> roundedNutrient 1004 [\<lparr>nutrientId = Some 1003, nutrient_value = Some (1 / 2)\<rparr>] = 0
   \<and> roundedNutrient 1003 [\<lparr>nutrientId = Some 1003, nutrient_value = Some (1 / 2)\<rparr>] = 1
   \<and> fst (searchFoodAPI world_no_results (lit ''zzzz'')) = []
   \<and> fst (searchFoodAPI (world0\<lparr>process_env := env_empty\<rparr>) (lit ''apple'')) = []"
proof -
  have k: "EXPO_PUBLIC_FOOD_API_KEY (process_env world0) = Some (lit ''food-key'')"
    "lit ''food-key'' \<noteq> []" "wellFormed (lit ''apple'')"
    by (simp_all add: world0_def env0_def lit_def)
  have f: "fetch_food world0 (FoodSearchRequest (lit ''apple'') (lit ''food-key''))
       = Inr \<lparr>ok = True, status = 200, json = Inr \<lparr>foods = Some [apple]\<rparr>\<rparr>"
    by (simp add: world0_def)
  note C5 = C5_searchFoodAPI_single_fetch_and_map
  have a: "fst (searchFoodAPI world0 (lit ''apple'')) = map foodToNutrition [apple]"
    using C5[of world0 "lit ''apple''"] k f by force
  have b: "roundedNutrient 1004 [\<lparr>nutrientId = Some 1003, nutrient_value = Some (1 / 2)\<rparr>] = 0"
    using C5[where i = 1004 and ns = "[\<lparr>nutrientId = Some 1003, nutrient_value = Some (1 / 2)\<rparr>]"]
    by simp
  have c: "roundedNutrient 1003 [\<lparr>nutrientId = Some 1003, nutrient_value = Some (1 / 2)\<rparr>] = 1"
    using C5[where i = 1003 and ns = "[\<lparr>nutrientId = Some 1003, nutrient_value = Some (1 / 2)\<rparr>]"]
    by simp
  have d: "fst (searchFoodAPI world_no_results (lit ''zzzz'')) = []"
    using C5[of world_no_results "lit ''zzzz''"]
    by (simp add: world_no_results_def world0_def env0_def)
  have e: "fst (searchFoodAPI (world0\<lparr>process_env := env_empty\<rparr>) (lit ''apple'')) = []"
    using C5[of "world0\<lparr>process_env := env_empty\<rparr>" "lit ''apple''"]
    by (simp add: env_empty_def falsy_def)
  show ?thesis
    using k f a b c d e by (simp add: apple_nutrition)
qed

text \<open>
  C6, as amended. An add operation issues exactly one insert, of one row. On the
  food screen the row holds the trimmed food name, the parsed calories, the clamped
  rating, the selected meal type, the trimmed notes (null when empty) and the
  \<open>user_id\<close> of the state; on the current mood screen it holds the trimmed text,
  the clamped mood and the \<open>user_id\<close>; the row of the earlier mood screen holds
  the trimmed text and the clamped mood and has no \<open>user_id\<close> property. This is
  so for every insert that is issued, so also for every one the backend accepts.
  The \<open>user_id\<close> is the authenticated user's: on the state \<open>getCurrentUser\<close>
  leaves, whatever the state before, the row carries the id of the user
  \<open>supabase.auth.getUser()\<close> returned; the add operations leave \<open>userId\<close> as it
  was.
\<close>

theorem C6_row_holds_validated_form_values:
  "(DbInsert c1 t1 r1 \<in> set (snd (FoodScreen_addFoodEntry sb w fs)) \<longrightarrow>
      filter isInsert (snd (FoodScreen_addFoodEntry sb w fs)) = [DbInsert sb FOOD_TABLE r1]
      \<and> map_of r1 ''food_name'' = Some (JString (trim (foodName fs)))
      \<and> map_of r1 ''calories'' = Some (JNumber (of_int (parseInt_or (food_state.calories fs) 0)))
      \<and> map_of r1 ''rating'' = Some (JNumber (of_int (clamp15 (food_state.rating fs))))
      \<and> map_of r1 ''meal_type'' = Some (JString (meal_string (mealType fs)))
      \<and> map_of r1 ''notes'' =
          Some (if trim (food_state.notes' fs) = [] then JNull
                else JString (trim (food_state.notes' fs)))
      \<and> (\<exists>uid. food_state.userId fs = Some uid \<and> uid \<noteq> []
                \<and> map_of r1 ''user_id'' = Some (JString uid)))
   \<and> (DbInsert c4 t4 r4
         \<in> set (snd (FoodScreen_addFoodEntry sb w (fst (FoodScreen_getCurrentUser sb w fs)))) \<longrightarrow>
      (\<exists>u. auth_getUser w = Some u \<and> map_of r4 ''user_id'' = Some (JString (User.id' u))))
   \<and> food_state.userId (fst (FoodScreen_addFoodEntry sb w fs)) = food_state.userId fs
   \<and> (DbInsert c2 t2 r2 \<in> set (snd (snd (HomeScreen_addItem sb w ms))) \<longrightarrow>
      filter isInsert (snd (snd (HomeScreen_addItem sb w ms))) = [DbInsert sb TABLE r2]
      \<and> map_of r2 ''text'' = Some (JString (trim (text' ms)))
      \<and> map_of r2 ''mood'' = Some (JNumber (of_int (clamp15 (mood ms))))
      \<and> (\<exists>uid. mood_state.userId ms = Some uid \<and> uid \<noteq> []
                \<and> map_of r2 ''user_id'' = Some (JString uid)))
   \<and> (DbInsert c5 t5 r5
         \<in> set (snd (snd (HomeScreen_addItem sb w (fst (HomeScreen_getCurrentUser sb w ms))))) \<longrightarrow>
      (\<exists>u. auth_getUser w = Some u \<and> map_of r5 ''user_id'' = Some (JString (User.id' u))))
   \<and> mood_state.userId (fst (snd (HomeScreen_addItem sb w ms))) = mood_state.userId ms
   \<and> (DbInsert c3 t3 r3 \<in> set (snd (snd (HomeScreenOld_addItem sb w os))) \<longrightarrow>
      filter isInsert (snd (snd (HomeScreenOld_addItem sb w os))) = [DbInsert sb TABLE r3]
      \<and> map_of r3 ''text'' = Some (JString (trim (text' os)))
      \<and> map_of r3 ''mood'' = Some (JNumber (of_int (clamp15 (mood os))))
      \<and> map_of r3 ''user_id'' = None)"
proof -
  have food: "filter isInsert (snd (FoodScreen_addFoodEntry sb w s)) = [DbInsert sb FOOD_TABLE r]
      \<and> map_of r ''food_name'' = Some (JString (trim (foodName s)))
      \<and> map_of r ''calories'' = Some (JNumber (of_int (parseInt_or (food_state.calories s) 0)))
      \<and> map_of r ''rating'' = Some (JNumber (of_int (clamp15 (food_state.rating s))))
      \<and> map_of r ''meal_type'' = Some (JString (meal_string (mealType s)))
      \<and> map_of r ''notes'' =
          Some (if trim (food_state.notes' s) = [] then JNull
                else JString (trim (food_state.notes' s)))
      \<and> (\<exists>uid. food_state.userId s = Some uid \<and> uid \<noteq> []
                \<and> map_of r ''user_id'' = Some (JString uid))"
    if ins: "DbInsert c t r \<in> set (snd (FoodScreen_addFoodEntry sb w s))" for c t r s
  proof -
    from ins have ex: "\<exists>e\<in>set (snd (FoodScreen_addFoodEntry sb w s)). isInsert e" by force
    have u: "\<not> falsy (food_state.userId s)"
      using FoodScreen_addFoodEntry_insert[OF ex] by simp
    have r: "r = FoodScreen_row s (trim (foodName s)) (parseInt_or (food_state.calories s) 0)
                 (clamp15 (food_state.rating s))"
      using FoodScreen_inserted_row[OF ins] by simp
    have "\<exists>uid. food_state.userId s = Some uid \<and> uid \<noteq> []
                \<and> map_of r ''user_id'' = Some (JString uid)"
      unfolding r using FoodScreen_row_columns truthy_user[OF u] by metis
    then show ?thesis
      using FoodScreen_one_insert[OF ins] FoodScreen_row_columns unfolding r by blast
  qed
  have mood: "filter isInsert (snd (snd (HomeScreen_addItem sb w s))) = [DbInsert sb TABLE r]
      \<and> map_of r ''text'' = Some (JString (trim (text' s)))
      \<and> map_of r ''mood'' = Some (JNumber (of_int (clamp15 (mood s))))
      \<and> (\<exists>uid. mood_state.userId s = Some uid \<and> uid \<noteq> []
                \<and> map_of r ''user_id'' = Some (JString uid))"
    if ins: "DbInsert c t r \<in> set (snd (snd (HomeScreen_addItem sb w s)))" for c t r s
  proof -
    from ins have ex: "\<exists>e\<in>set (snd (snd (HomeScreen_addItem sb w s))). isInsert e" by force
    have u: "\<not> falsy (mood_state.userId s)"
      using HomeScreen_addItem_insert[OF ex] by simp
    obtain loc where r: "r = HomeScreen_row s (trim (text' s)) (clamp15 (mood s)) loc"
      using HomeScreen_inserted_row[OF ins] by blast
    have "\<exists>uid. mood_state.userId s = Some uid \<and> uid \<noteq> []
                \<and> map_of r ''user_id'' = Some (JString uid)"
      unfolding r using truthy_user[OF u] by (auto simp add: HomeScreen_row_columns)
    then show ?thesis
      using HomeScreen_one_insert[OF ins] unfolding r by (simp add: HomeScreen_row_columns)
  qed
  have old: "filter isInsert (snd (snd (HomeScreenOld_addItem sb w os))) = [DbInsert sb TABLE r3]
      \<and> map_of r3 ''text'' = Some (JString (trim (text' os)))
      \<and> map_of r3 ''mood'' = Some (JNumber (of_int (clamp15 (mood os))))
      \<and> map_of r3 ''user_id'' = None"
    if ins: "DbInsert c3 t3 r3 \<in> set (snd (snd (HomeScreenOld_addItem sb w os)))"
  proof -
    obtain loc where r: "r3 = HomeScreenOld_row (trim (text' os)) (clamp15 (mood os)) loc"
      using HomeScreenOld_inserted_row[OF ins] by blast
    show ?thesis
      using HomeScreenOld_one_insert[OF ins] unfolding r by (simp add: HomeScreenOld_row_columns)
  qed
  have food_tie: "\<exists>u. auth_getUser w = Some u \<and> map_of r4 ''user_id'' = Some (JString (User.id' u))"
    if ins: "DbInsert c4 t4 r4
         \<in> set (snd (FoodScreen_addFoodEntry sb w (fst (FoodScreen_getCurrentUser sb w fs))))"
  proof -
    from food[OF ins] obtain uid where
      uid: "food_state.userId (fst (FoodScreen_getCurrentUser sb w fs)) = Some uid" "uid \<noteq> []"
      and row: "map_of r4 ''user_id'' = Some (JString uid)"
      by blast
    from uid have "\<not> falsy (case auth_getUser w of None \<Rightarrow> None
                              | Some u \<Rightarrow> str_or_null (User.id' u))"
      by (simp add: FoodScreen_getCurrentUser_userId falsy_def)
    from loaded_user[OF this] uid row show ?thesis
      by (auto simp add: FoodScreen_getCurrentUser_userId)
  qed
  have mood_tie: "\<exists>u. auth_getUser w = Some u \<and> map_of r5 ''user_id'' = Some (JString (User.id' u))"
    if ins: "DbInsert c5 t5 r5
         \<in> set (snd (snd (HomeScreen_addItem sb w (fst (HomeScreen_getCurrentUser sb w ms)))))"
  proof -
    from mood[OF ins] obtain uid where
      uid: "mood_state.userId (fst (HomeScreen_getCurrentUser sb w ms)) = Some uid" "uid \<noteq> []"
      and row: "map_of r5 ''user_id'' = Some (JString uid)"
      by blast
    from uid have "\<not> falsy (case auth_getUser w of None \<Rightarrow> None
                              | Some u \<Rightarrow> str_or_null (User.id' u))"
      by (simp add: HomeScreen_getCurrentUser_userId falsy_def)
    from loaded_user[OF this] uid row show ?thesis
      by (auto simp add: HomeScreen_getCurrentUser_userId)
  qed
  show ?thesis
    using food[of c1 t1 r1 fs] mood[of c2 t2 r2 ms] old food_tie mood_tie
      FoodScreen_addFoodEntry_keeps_userId[of sb w fs] HomeScreen_addItem_keeps_userId[of sb w ms]
    by (intro conjI impI) blast+
qed

text \<open>
  Against C6 as first stated, which covers the earlier \<open>addItem\<close> too and gives every row
  the \<open>user_id\<close> of the current user: the earlier screen, with the text
  \<open>fine day\<close> and the mood \<open>9\<close>, inserts a row that is accepted and has no
  \<open>user_id\<close>.
\<close>

theorem C6_counterexample:
  "snd (snd (HomeScreenOld_addItem sb0 world0 old1)) =
     [DbInsert sb0 ''data''
        [(''text'', JString (lit ''fine day'')), (''mood'', JNumber 5), (''lat'', JNull),
         (''lng'', JNull), (''weather'', JNull)],
      DbSelect sb0 HomeScreenOld_query]
   \<and> db_insert world0 ''data''
        [(''text'', JString (lit ''fine day'')), (''mood'', JNumber 5), (''lat'', JNull),
         (''lng'', JNull), (''weather'', JNull)] = None
   \<and> map_of [(''text'', JString (lit ''fine day'')), (''mood'', JNumber 5), (''lat'', JNull),
              (''lng'', JNull), (''weather'', JNull)] ''user_id'' = None"
  using old1_run by (simp add: world0_def)

text \<open>C6 at the sample forms of the three screens, the user id loaded by
  \<open>getCurrentUser\<close>.\<close>

theorem C6_witness:
  "DbInsert sb0 FOOD_TABLE (FoodScreen_row food1 (lit ''Apple, raw'') 52 3)
     \<in> set (snd (FoodScreen_addFoodEntry sb0 world0 food1))
   \<and> filter isInsert (snd (FoodScreen_addFoodEntry sb0 world0 food1))
       = [DbInsert sb0 FOOD_TABLE (FoodScreen_row food1 (lit ''Apple, raw'') 52 3)]
   \<and> map_of (FoodScreen_row food1 (lit ''Apple, raw'') 52 3) ''food_name''
       = Some (JString (lit ''Apple, raw''))
   \<and> map_of (FoodScreen_row food1 (lit ''Apple, raw'') 52 3) ''calories'' = Some (JNumber 52)
   \<and> map_of (FoodScreen_row food1 (lit ''Apple, raw'') 52 3) ''notes''
       = Some (JString (lit ''crisp''))
   \<and> auth_getUser world0 = Some \<lparr>User.id' = lit ''u1'', email = None\<rparr>
   \<and> fst (FoodScreen_getCurrentUser sb0 world0 (food1\<lparr>food_state.userId := None\<rparr>)) = food1
   \<and> map_of (FoodScreen_row food1 (lit ''Apple, raw'') 52 3) ''user_id''
       = Some (JString (lit ''u1''))
   \<and> DbInsert sb0 TABLE
        (HomeScreen_row mood1 (lit ''fine day'') 4 (Some 52, Some 13, Some (lit ''Rain''), Some (43 / 2)))
      \<in> set (snd (snd (HomeScreen_addItem sb0 world0 mood1)))
   \<and> fst (HomeScreen_getCurrentUser sb0 world0 (mood1\<lparr>userId := None\<rparr>)) = mood1
   \<and> map_of (HomeScreen_row mood1 (lit ''fine day'') 4
               (Some 52, Some 13, Some (lit ''Rain''), Some (43 / 2))) ''user_id''
       = Some (JString (lit ''u1''))
   \<and> DbInsert sb0 TABLE (HomeScreenOld_row (lit ''fine day'') 5 (None, None, None))
      \<in> set (snd (snd (HomeScreenOld_addItem sb0 world0 old1)))
   \<and> map_of (HomeScreenOld_row (lit ''fine day'') 5 (None, None, None)) ''user_id'' = None"
proof -
  have n: "trim (food_state.notes' food1) = lit ''crisp''"
    "food_state.userId food1 = Some (lit ''u1'')" "mood_state.userId mood1 = Some (lit ''u1'')"
    by (simp_all add: food1_def FoodScreen_initial_def mood1_def HomeScreen_initial_def js_simps)
  note C6 = C6_row_holds_validated_form_values
            [where sb = sb0 and w = world0 and ?c3.0 = sb0 and ?t3.0 = TABLE
               and os = old1
               and ?r3.0 = "HomeScreenOld_row (lit ''fine day'') 5 (None, None, None)"
               and ?c1.0 = sb0 and ?t1.0 = FOOD_TABLE and fs = "food1\<lparr>food_state.userId := None\<rparr>"
               and ?c4.0 = sb0 and ?t4.0 = FOOD_TABLE
               and ?r4.0 = "FoodScreen_row food1 (lit ''Apple, raw'') 52 3"
               and ?c2.0 = sb0 and ?t2.0 = TABLE and ms = "mood1\<lparr>userId := None\<rparr>"
               and ?c5.0 = sb0 and ?t5.0 = TABLE
               and ?r5.0 = "HomeScreen_row mood1 (lit ''fine day'') 4
                             (Some 52, Some 13, Some (lit ''Rain''), Some (43 / 2))"]
  have tie: "\<exists>u. auth_getUser world0 = Some u
               \<and> map_of (FoodScreen_row food1 (lit ''Apple, raw'') 52 3) ''user_id''
                   = Some (JString (User.id' u))"
    "\<exists>u. auth_getUser world0 = Some u
               \<and> map_of (HomeScreen_row mood1 (lit ''fine day'') 4
                     (Some 52, Some 13, Some (lit ''Rain''), Some (43 / 2))) ''user_id''
                   = Some (JString (User.id' u))"
    using C6 food1_inserts[of world0] mood1_inserts[OF world0_locate]
    unfolding food1_loaded mood1_loaded by blast+
  have old: "map_of (HomeScreenOld_row (lit ''fine day'') 5 (None, None, None)) ''user_id'' = None"
    using C6 old1_inserts[of world0] by blast
  have rows: "filter isInsert (snd (FoodScreen_addFoodEntry sb0 world0 food1))
       = [DbInsert sb0 FOOD_TABLE (FoodScreen_row food1 (lit ''Apple, raw'') 52 3)]"
    using FoodScreen_one_insert[OF food1_inserts[of world0]] .
  have cols: "map_of (FoodScreen_row food1 (lit ''Apple, raw'') 52 3) ''food_name''
       = Some (JString (lit ''Apple, raw''))"
    "map_of (FoodScreen_row food1 (lit ''Apple, raw'') 52 3) ''calories'' = Some (JNumber 52)"
    "map_of (FoodScreen_row food1 (lit ''Apple, raw'') 52 3) ''notes''
       = Some (JString (lit ''crisp''))"
    using n by (simp_all add: FoodScreen_row_columns lit_def)
  show ?thesis
    using tie old rows cols world_users(1) food1_loaded mood1_loaded
      mood1_inserts[OF world0_locate] old1_inserts[of world0] food1_inserts[of world0]
    by auto
qed

text \<open>
  C7, as amended. Loading \<open>lib/supabase\<close> throws
  \<open>Missing EXPO_PUBLIC_SUPABASE_URL\<close> when the URL variable is absent or empty, and
  \<open>Missing EXPO_PUBLIC_SUPABASE_KEY\<close> when the URL variable is set and the key
  variable is absent or empty, whatever the SDK accepts; a client exists only when
  both are set, and it is the one \<open>createClient(url, anonKey)\<close> returns. Every
  database and auth call of the food screen, of both mood screens and of the
  profile screen goes through the one client the screen imports.
\<close>

theorem C7_client_needs_both_settings:
  "(falsy (EXPO_PUBLIC_SUPABASE_URL e) \<longrightarrow>
      supabase rejects e = Inl (Error (lit ''Missing EXPO_PUBLIC_SUPABASE_URL'')))
   \<and> (\<not> falsy (EXPO_PUBLIC_SUPABASE_URL e) \<and> falsy (EXPO_PUBLIC_SUPABASE_KEY e) \<longrightarrow>
      supabase rejects e = Inl (Error (lit ''Missing EXPO_PUBLIC_SUPABASE_KEY'')))
   \<and> (\<forall>c. supabase rejects e = Inr c \<longrightarrow>
        (\<exists>u k. EXPO_PUBLIC_SUPABASE_URL e = Some u \<and> u \<noteq> []
              \<and> EXPO_PUBLIC_SUPABASE_KEY e = Some k \<and> k \<noteq> []
              \<and> createClient rejects u k = Inr c \<and> c = \<lparr>supabaseUrl = u, supabaseKey = k\<rparr>))
   \<and> (\<forall>ev\<in>set (snd (FoodScreen_getCurrentUser sb w fs)) \<union> set (snd (FoodScreen_fetchItems sb w fs))
          \<union> set (snd (FoodScreen_addFoodEntry sb w fs))
          \<union> set (snd (FoodScreen_clearAllEntries_onPress sb w fs))
          \<union> set (snd (HomeScreen_getCurrentUser sb w ms)) \<union> set (snd (HomeScreen_fetchItems sb w ms))
          \<union> set (snd (snd (HomeScreen_addItem sb w ms)))
          \<union> set (snd (HomeScreenOld_fetchItems sb w os))
          \<union> set (snd (snd (HomeScreenOld_addItem sb w os)))
          \<union> set (snd (ProfileScreen_getUser sb w ps))
          \<union> set (ProfileScreen_handleLogout_onPress sb w).
        client_of ev = None \<or> client_of ev = Some sb)"
proof (intro conjI)
  show "\<forall>ev\<in>set (snd (FoodScreen_getCurrentUser sb w fs)) \<union> set (snd (FoodScreen_fetchItems sb w fs))
          \<union> set (snd (FoodScreen_addFoodEntry sb w fs))
          \<union> set (snd (FoodScreen_clearAllEntries_onPress sb w fs))
          \<union> set (snd (HomeScreen_getCurrentUser sb w ms)) \<union> set (snd (HomeScreen_fetchItems sb w ms))
          \<union> set (snd (snd (HomeScreen_addItem sb w ms)))
          \<union> set (snd (HomeScreenOld_fetchItems sb w os))
          \<union> set (snd (snd (HomeScreenOld_addItem sb w os)))
          \<union> set (snd (ProfileScreen_getUser sb w ps))
          \<union> set (ProfileScreen_handleLogout_onPress sb w).
        client_of ev = None \<or> client_of ev = Some sb"
    using simple_clients[of sb w] FoodScreen_addFoodEntry_clients[of sb w fs]
      FoodScreen_clearAllEntries_onPress_clients[of sb w fs]
      HomeScreen_addItem_clients[of sb w ms] HomeScreenOld_addItem_clients[of sb w os]
    by blast
qed (use supabase_url_missing supabase_key_missing supabase_client in blast)+

text \<open>
  Against C7 as first stated, which has the key message thrown whenever the key variable
  is absent: with neither variable set the URL guard runs first and the message
  is the URL's.
\<close>

theorem C7_counterexample:
  "EXPO_PUBLIC_SUPABASE_KEY env_empty = None
   \<and> supabase sdk0 env_empty = Inl (Error (lit ''Missing EXPO_PUBLIC_SUPABASE_URL''))
   \<and> supabase sdk0 env_empty \<noteq> Inl (Error (lit ''Missing EXPO_PUBLIC_SUPABASE_KEY''))"
  by (simp add: env_empty_def supabase_def Error_def lit_def)

text \<open>C7 with no variable set, with the key variable missing, with both set, and
  with a URL the sample SDK refuses.\<close>

theorem C7_witness:
  "supabase sdk0 env_empty = Inl (Error (lit ''Missing EXPO_PUBLIC_SUPABASE_URL''))
   \<and> supabase sdk0 (env0\<lparr>EXPO_PUBLIC_SUPABASE_KEY := None\<rparr>)
       = Inl (Error (lit ''Missing EXPO_PUBLIC_SUPABASE_KEY''))
   \<and> supabase sdk0 env0 = Inr sb0
   \<and> createClient sdk0 (lit ''https://project.supabase.co'') (lit ''anon-key'') = Inr sb0
   \<and> supabase sdk0 (env0\<lparr>EXPO_PUBLIC_SUPABASE_URL := Some (lit ''not a url'')\<rparr>)
       = Inl (Error (lit ''Invalid supabaseUrl: Must be a valid HTTP or HTTPS URL.''))
   \<and> map client_of (snd (FoodScreen_fetchItems sb0 world0 food1)) = [Some sb0]"
proof -
  have a: "falsy (EXPO_PUBLIC_SUPABASE_URL env_empty)"
    and b: "\<not> falsy (EXPO_PUBLIC_SUPABASE_URL (env0\<lparr>EXPO_PUBLIC_SUPABASE_KEY := None\<rparr>))
            \<and> falsy (EXPO_PUBLIC_SUPABASE_KEY (env0\<lparr>EXPO_PUBLIC_SUPABASE_KEY := None\<rparr>))"
    by (simp_all add: env_empty_def env0_def falsy_def lit_def)
  have a': "supabase sdk0 env_empty = Inl (Error (lit ''Missing EXPO_PUBLIC_SUPABASE_URL''))"
    using C7_client_needs_both_settings[where e = env_empty and rejects = sdk0] a by blast
  have b': "supabase sdk0 (env0\<lparr>EXPO_PUBLIC_SUPABASE_KEY := None\<rparr>)
       = Inl (Error (lit ''Missing EXPO_PUBLIC_SUPABASE_KEY''))"
    using C7_client_needs_both_settings
        [where e = "env0\<lparr>EXPO_PUBLIC_SUPABASE_KEY := None\<rparr>" and rejects = sdk0] b by blast
  have k: "createClient sdk0 (lit ''https://project.supabase.co'') (lit ''anon-key'') = Inr sb0"
    by (simp add: createClient_def sdk0_def sb0_def lit_def)
  have c: "supabase sdk0 env0 = Inr sb0"
    using k by (simp add: supabase_def env0_def) (simp add: lit_def)
  have d: "map client_of (snd (FoodScreen_fetchItems sb0 world0 food1)) = [Some sb0]"
    using food1_form by (simp add: FoodScreen_fetchItems_trace)
  have r: "sdk0 (lit ''not a url'') (lit ''anon-key'')
       = Some (Error (lit ''Invalid supabaseUrl: Must be a valid HTTP or HTTPS URL.''))"
    by (simp add: sdk0_def lit_def)
  have e: "supabase sdk0 (env0\<lparr>EXPO_PUBLIC_SUPABASE_URL := Some (lit ''not a url'')\<rparr>)
       = Inl (Error (lit ''Invalid supabaseUrl: Must be a valid HTTP or HTTPS URL.''))"
    using r by (simp add: supabase_def createClient_def env0_def) (simp add: lit_def)
  show ?thesis
    using a' b' k c d e by blast
qed

text \<open>
  C8, as amended. In a row the food screen inserts, the \<open>fiber\<close> column equals the
  \<open>fat\<close> column. With a nutrition item selected it is the item's fat value when
  that value is not 0 and null when it is 0; with none selected, \<open>protein\<close>,
  \<open>carbs\<close>, \<open>fat\<close> and \<open>fiber\<close> are all null.
\<close>

theorem C8_fiber_is_the_stored_fat:
  "DbInsert c t r \<in> set (snd (FoodScreen_addFoodEntry sb w fs)) \<longrightarrow>
     map_of r ''fiber'' = map_of r ''fat''
     \<and> (\<forall>n. selectedNutrition fs = Some n \<longrightarrow>
           map_of r ''fiber'' =
             Some (if NutritionInfo.fat n = 0 then JNull else JNumber (NutritionInfo.fat n)))
     \<and> (selectedNutrition fs = None \<longrightarrow>
           map_of r ''protein'' = Some JNull \<and> map_of r ''carbs'' = Some JNull
           \<and> map_of r ''fat'' = Some JNull \<and> map_of r ''fiber'' = Some JNull)"
proof
  assume ins: "DbInsert c t r \<in> set (snd (FoodScreen_addFoodEntry sb w fs))"
  have r: "r = FoodScreen_row fs (trim (foodName fs)) (parseInt_or (food_state.calories fs) 0)
               (clamp15 (food_state.rating fs))"
    using FoodScreen_inserted_row[OF ins] by simp
  show "map_of r ''fiber'' = map_of r ''fat''
     \<and> (\<forall>n. selectedNutrition fs = Some n \<longrightarrow>
           map_of r ''fiber'' =
             Some (if NutritionInfo.fat n = 0 then JNull else JNumber (NutritionInfo.fat n)))
     \<and> (selectedNutrition fs = None \<longrightarrow>
           map_of r ''protein'' = Some JNull \<and> map_of r ''carbs'' = Some JNull
           \<and> map_of r ''fat'' = Some JNull \<and> map_of r ''fiber'' = Some JNull)"
    unfolding r
    by (simp add: FoodScreen_row_macros num_or_null_def of_number_opt_def)
qed

text \<open>
  Against C8 as first stated, which stores the selected item's fat value in \<open>fiber\<close>:
  with an item whose fat is 0 selected, the accepted row has \<open>fiber\<close> null:
  \<open>selectedNutrition?.fat || null\<close> turns 0 into null.
\<close>

theorem C8_counterexample:
  "DbInsert sb0 FOOD_TABLE (FoodScreen_row food1 (lit ''Apple, raw'') 52 3)
     \<in> set (snd (FoodScreen_addFoodEntry sb0 world0 food1))
   \<and> db_insert world0 FOOD_TABLE (FoodScreen_row food1 (lit ''Apple, raw'') 52 3) = None
   \<and> map_option NutritionInfo.fat (selectedNutrition food1) = Some 0
   \<and> map_of (FoodScreen_row food1 (lit ''Apple, raw'') 52 3) ''fiber'' = Some JNull
   \<and> map_of (FoodScreen_row food1 (lit ''Apple, raw'') 52 3) ''fiber'' \<noteq> Some (JNumber 0)"
  using food1_inserts[of world0]
  by (simp add: world0_def FoodScreen_row_macros num_or_null_def of_number_opt_def)
     (simp add: food1_def FoodScreen_initial_def)

text \<open>C8 with an item of fat 33 selected and with no item selected.\<close>

theorem C8_witness:
  "DbInsert sb0 FOOD_TABLE
     (FoodScreen_row (food1\<lparr>selectedNutrition := Some cheddar\<rparr>) (lit ''Apple, raw'') 52 3)
     \<in> set (snd (FoodScreen_addFoodEntry sb0 world0 (food1\<lparr>selectedNutrition := Some cheddar\<rparr>)))
   \<and> map_of (FoodScreen_row (food1\<lparr>selectedNutrition := Some cheddar\<rparr>) (lit ''Apple, raw'') 52 3)
        ''fiber'' = Some (JNumber 33)
   \<and> NutritionInfo.fat cheddar = 33
   \<and> DbInsert sb0 FOOD_TABLE
     (FoodScreen_row (food1\<lparr>selectedNutrition := None\<rparr>) (lit ''Apple, raw'') 52 3)
     \<in> set (snd (FoodScreen_addFoodEntry sb0 world0 (food1\<lparr>selectedNutrition := None\<rparr>)))
   \<and> map_of (FoodScreen_row (food1\<lparr>selectedNutrition := None\<rparr>) (lit ''Apple, raw'') 52 3)
        ''protein'' = Some JNull
   \<and> map_of (FoodScreen_row (food1\<lparr>selectedNutrition := None\<rparr>) (lit ''Apple, raw'') 52 3)
        ''carbs'' = Some JNull
   \<and> map_of (FoodScreen_row (food1\<lparr>selectedNutrition := None\<rparr>) (lit ''Apple, raw'') 52 3)
        ''fat'' = Some JNull
   \<and> map_of (FoodScreen_row (food1\<lparr>selectedNutrition := None\<rparr>) (lit ''Apple, raw'') 52 3)
        ''fiber'' = Some JNull"
  using C8_fiber_is_the_stored_fat
          [of sb0 FOOD_TABLE
              "FoodScreen_row (food1\<lparr>selectedNutrition := Some cheddar\<rparr>) (lit ''Apple, raw'') 52 3"
              sb0 world0 "food1\<lparr>selectedNutrition := Some cheddar\<rparr>"]
        C8_fiber_is_the_stored_fat
          [of sb0 FOOD_TABLE
              "FoodScreen_row (food1\<lparr>selectedNutrition := None\<rparr>) (lit ''Apple, raw'') 52 3"
              sb0 world0 "food1\<lparr>selectedNutrition := None\<rparr>"]
        food1_selected_inserts[of "Some cheddar" world0] food1_selected_inserts[of None world0]
  by (simp add: cheddar_def FoodScreen_row_macros num_or_null_def of_number_opt_def)

text \<open>
  C9. Every mood value and every rating value that is inserted is an integer
  between 1 and 5. For every input string, \<open>Math.min(5, Math.max(1, parseInt(s, 10) || 3))\<close>
  lies between 1 and 5 and is 3 when \<open>parseInt\<close> gives \<open>NaN\<close>; the \<open>mood\<close> column of
  a row inserted by either version of the mood screen and the \<open>rating\<close> column of a
  row inserted by the food screen hold that integer.
\<close>

theorem C9_mood_and_rating_between_1_and_5:
  "(1 \<le> clamp15 str \<and> clamp15 str \<le> 5 \<and> (parseInt str = None \<longrightarrow> clamp15 str = 3))
   \<and> (DbInsert c1 t1 r1 \<in> set (snd (snd (HomeScreen_addItem sb w ms))) \<longrightarrow>
        map_of r1 ''mood'' = Some (JNumber (of_int (clamp15 (mood ms)))))
   \<and> (DbInsert c2 t2 r2 \<in> set (snd (snd (HomeScreenOld_addItem sb w os))) \<longrightarrow>
        map_of r2 ''mood'' = Some (JNumber (of_int (clamp15 (mood os)))))
   \<and> (DbInsert c3 t3 r3 \<in> set (snd (FoodScreen_addFoodEntry sb w fs)) \<longrightarrow>
        map_of r3 ''rating'' = Some (JNumber (of_int (clamp15 (food_state.rating fs)))))"
proof (intro conjI impI)
  show "1 \<le> clamp15 str" and "clamp15 str \<le> 5"
    using clamp15_range[of str] by simp_all
  show "clamp15 str = 3" if "parseInt str = None"
    using that by (rule clamp15_NaN)
  show "map_of r1 ''mood'' = Some (JNumber (of_int (clamp15 (mood ms))))"
    if "DbInsert c1 t1 r1 \<in> set (snd (snd (HomeScreen_addItem sb w ms)))"
    using HomeScreen_inserted_row[OF that] by (auto simp add: HomeScreen_row_def)
  show "map_of r2 ''mood'' = Some (JNumber (of_int (clamp15 (mood os))))"
    if "DbInsert c2 t2 r2 \<in> set (snd (snd (HomeScreenOld_addItem sb w os)))"
    using HomeScreenOld_inserted_row[OF that] by (auto simp add: HomeScreenOld_row_def)
  show "map_of r3 ''rating'' = Some (JNumber (of_int (clamp15 (food_state.rating fs))))"
    if "DbInsert c3 t3 r3 \<in> set (snd (FoodScreen_addFoodEntry sb w fs))"
    using FoodScreen_inserted_row[OF that] by (simp add: FoodScreen_row_def)
qed

text \<open>C9 at a non-numeric string and at the sample forms of the three screens.\<close>

theorem C9_witness:
  "parseInt (lit ''abc'') = None \<and> clamp15 (lit ''abc'') = 3
   \<and> DbInsert sb0 TABLE
       (HomeScreen_row mood1 (lit ''fine day'') 4 (Some 52, Some 13, Some (lit ''Rain''), Some (43 / 2)))
     \<in> set (snd (snd (HomeScreen_addItem sb0 world0 mood1)))
   \<and> map_of (HomeScreen_row mood1 (lit ''fine day'') 4
               (Some 52, Some 13, Some (lit ''Rain''), Some (43 / 2))) ''mood'' = Some (JNumber 4)
   \<and> DbInsert sb0 TABLE (HomeScreenOld_row (lit ''fine day'') 5 (None, None, None))
     \<in> set (snd (snd (HomeScreenOld_addItem sb0 world0 old1)))
   \<and> map_of (HomeScreenOld_row (lit ''fine day'') 5 (None, None, None)) ''mood'' = Some (JNumber 5)
   \<and> DbInsert sb0 FOOD_TABLE (FoodScreen_row food1 (lit ''Apple, raw'') 52 3)
     \<in> set (snd (FoodScreen_addFoodEntry sb0 world0 food1))
   \<and> map_of (FoodScreen_row food1 (lit ''Apple, raw'') 52 3) ''rating'' = Some (JNumber 3)"
proof -
  have nan: "parseInt (lit ''abc'') = None"
    by (simp add: js_simps)
  show ?thesis
    using C9_mood_and_rating_between_1_and_5
            [where str = "lit ''abc''" and sb = sb0 and w = world0
               and ms = mood1 and os = old1 and fs = food1
               and ?c1.0 = sb0 and ?t1.0 = TABLE
               and ?r1.0 = "HomeScreen_row mood1 (lit ''fine day'') 4
                             (Some 52, Some 13, Some (lit ''Rain''), Some (43 / 2))"
               and ?c2.0 = sb0 and ?t2.0 = TABLE
               and ?r2.0 = "HomeScreenOld_row (lit ''fine day'') 5 (None, None, None)"
               and ?c3.0 = sb0 and ?t3.0 = FOOD_TABLE
               and ?r3.0 = "FoodScreen_row food1 (lit ''Apple, raw'') 52 3"]
          nan mood1_inserts[OF world0_locate] old1_inserts[of world0] food1_inserts[of world0]
          mood1_form old1_form food1_form
    by simp
qed

text \<open>
  C10. \<open>fetchItems\<close> on the food screen and on the current mood screen. Without a
  user id it returns the state as it was and makes no call. With one it issues a
  single select on the screen's table, filtered by \<open>user_id\<close> equal to that id,
  ordered by \<open>created_at\<close> descending, limited to 50 rows; when that select
  fails, \<open>items\<close> is the empty list afterwards, whatever it held before. It
  leaves \<open>userId\<close> as it was. The id is the authenticated user's: on the state
  \<open>getCurrentUser\<close> leaves, whatever the state before, the select filters on the
  id of the user \<open>supabase.auth.getUser()\<close> returned, and when that call returned
  no user (or one with an empty id) \<open>fetchItems\<close> makes no call and changes
  nothing.
\<close>

theorem C10_fetchItems_scoped_to_user:
  "(falsy (food_state.userId fs) \<longrightarrow> FoodScreen_fetchItems sb w fs = (fs, []))
   \<and> (\<not> falsy (food_state.userId fs) \<longrightarrow>
        (\<exists>q. snd (FoodScreen_fetchItems sb w fs) = [DbSelect sb q]
           \<and> table q = FOOD_TABLE \<and> filters q = [(''user_id'', food_state.userId fs)]
           \<and> ordering q = Some (''created_at'', False) \<and> limit q = Some 50
           \<and> (\<forall>e. select_food_entries w q = Failure e \<longrightarrow>
                  food_state.items (fst (FoodScreen_fetchItems sb w fs)) = [])))
   \<and> food_state.userId (fst (FoodScreen_fetchItems sb w fs)) = food_state.userId fs
   \<and> (\<forall>u. auth_getUser w = Some u \<and> User.id' u \<noteq> [] \<longrightarrow>
        (\<exists>q. snd (FoodScreen_fetchItems sb w (fst (FoodScreen_getCurrentUser sb w fs))) = [DbSelect sb q]
           \<and> table q = FOOD_TABLE \<and> filters q = [(''user_id'', Some (User.id' u))]
           \<and> ordering q = Some (''created_at'', False) \<and> limit q = Some 50
           \<and> (\<forall>e. select_food_entries w q = Failure e \<longrightarrow>
                  food_state.items
                    (fst (FoodScreen_fetchItems sb w (fst (FoodScreen_getCurrentUser sb w fs)))) = [])))
   \<and> (auth_getUser w = None \<or> (\<exists>u. auth_getUser w = Some u \<and> User.id' u = []) \<longrightarrow>
        FoodScreen_fetchItems sb w (fst (FoodScreen_getCurrentUser sb w fs))
          = (fst (FoodScreen_getCurrentUser sb w fs), []))
   \<and> (falsy (mood_state.userId ms) \<longrightarrow> HomeScreen_fetchItems sb w ms = (ms, []))
   \<and> (\<not> falsy (mood_state.userId ms) \<longrightarrow>
        (\<exists>q. snd (HomeScreen_fetchItems sb w ms) = [DbSelect sb q]
           \<and> table q = TABLE \<and> filters q = [(''user_id'', mood_state.userId ms)]
           \<and> ordering q = Some (''created_at'', False) \<and> limit q = Some 50
           \<and> (\<forall>e. select_data w q = Failure e \<longrightarrow>
                  mood_base.items (fst (HomeScreen_fetchItems sb w ms)) = [])))
   \<and> mood_state.userId (fst (HomeScreen_fetchItems sb w ms)) = mood_state.userId ms
   \<and> (\<forall>u. auth_getUser w = Some u \<and> User.id' u \<noteq> [] \<longrightarrow>
        (\<exists>q. snd (HomeScreen_fetchItems sb w (fst (HomeScreen_getCurrentUser sb w ms))) = [DbSelect sb q]
           \<and> table q = TABLE \<and> filters q = [(''user_id'', Some (User.id' u))]
           \<and> ordering q = Some (''created_at'', False) \<and> limit q = Some 50
           \<and> (\<forall>e. select_data w q = Failure e \<longrightarrow>
                  mood_base.items
                    (fst (HomeScreen_fetchItems sb w (fst (HomeScreen_getCurrentUser sb w ms)))) = [])))
   \<and> (auth_getUser w = None \<or> (\<exists>u. auth_getUser w = Some u \<and> User.id' u = []) \<longrightarrow>
        HomeScreen_fetchItems sb w (fst (HomeScreen_getCurrentUser sb w ms))
          = (fst (HomeScreen_getCurrentUser sb w ms), []))"
proof -
  have f1: "FoodScreen_fetchItems sb w s = (s, [])" if "falsy (food_state.userId s)" for s
    using that by (simp add: FoodScreen_fetchItems_def)
  have m1: "HomeScreen_fetchItems sb w s = (s, [])" if "falsy (mood_state.userId s)" for s
    using that by (simp add: HomeScreen_fetchItems_def)
  have f2: "\<exists>q. snd (FoodScreen_fetchItems sb w s) = [DbSelect sb q]
           \<and> table q = FOOD_TABLE \<and> filters q = [(''user_id'', food_state.userId s)]
           \<and> ordering q = Some (''created_at'', False) \<and> limit q = Some 50
           \<and> (\<forall>e. select_food_entries w q = Failure e \<longrightarrow>
                  food_state.items (fst (FoodScreen_fetchItems sb w s)) = [])"
    if u: "\<not> falsy (food_state.userId s)" for s
  proof -
    let ?q = "FoodScreen_query (food_state.userId s)"
    have "snd (FoodScreen_fetchItems sb w s) = [DbSelect sb ?q]"
      using u by (simp add: FoodScreen_fetchItems_trace)
    moreover have "\<forall>e. select_food_entries w ?q = Failure e \<longrightarrow>
                    food_state.items (fst (FoodScreen_fetchItems sb w s)) = []"
      using FoodScreen_fetchItems_failure[OF u] by blast
    ultimately show ?thesis
      using FoodScreen_query_fields[of "food_state.userId s"] by blast
  qed
  have m2: "\<exists>q. snd (HomeScreen_fetchItems sb w s) = [DbSelect sb q]
           \<and> table q = TABLE \<and> filters q = [(''user_id'', mood_state.userId s)]
           \<and> ordering q = Some (''created_at'', False) \<and> limit q = Some 50
           \<and> (\<forall>e. select_data w q = Failure e \<longrightarrow>
                  mood_base.items (fst (HomeScreen_fetchItems sb w s)) = [])"
    if u: "\<not> falsy (mood_state.userId s)" for s
  proof -
    let ?q = "HomeScreen_query (mood_state.userId s)"
    have "snd (HomeScreen_fetchItems sb w s) = [DbSelect sb ?q]"
      using u by (simp add: HomeScreen_fetchItems_trace)
    moreover have "\<forall>e. select_data w ?q = Failure e \<longrightarrow>
                    mood_base.items (fst (HomeScreen_fetchItems sb w s)) = []"
      using HomeScreen_fetchItems_failure[OF u] by blast
    ultimately show ?thesis
      using HomeScreen_query_fields[of "mood_state.userId s"] by blast
  qed
  have f3: "\<exists>q. snd (FoodScreen_fetchItems sb w (fst (FoodScreen_getCurrentUser sb w fs))) = [DbSelect sb q]
           \<and> table q = FOOD_TABLE \<and> filters q = [(''user_id'', Some (User.id' u))]
           \<and> ordering q = Some (''created_at'', False) \<and> limit q = Some 50
           \<and> (\<forall>e. select_food_entries w q = Failure e \<longrightarrow>
                  food_state.items
                    (fst (FoodScreen_fetchItems sb w (fst (FoodScreen_getCurrentUser sb w fs)))) = [])"
    if "auth_getUser w = Some u \<and> User.id' u \<noteq> []" for u
  proof -
    have id: "food_state.userId (fst (FoodScreen_getCurrentUser sb w fs)) = Some (User.id' u)"
      using that FoodScreen_signed_in by blast
    then have "\<not> falsy (food_state.userId (fst (FoodScreen_getCurrentUser sb w fs)))"
      using that by (simp add: falsy_def)
    from f2[OF this] show ?thesis unfolding id by blast
  qed
  have m3: "\<exists>q. snd (HomeScreen_fetchItems sb w (fst (HomeScreen_getCurrentUser sb w ms))) = [DbSelect sb q]
           \<and> table q = TABLE \<and> filters q = [(''user_id'', Some (User.id' u))]
           \<and> ordering q = Some (''created_at'', False) \<and> limit q = Some 50
           \<and> (\<forall>e. select_data w q = Failure e \<longrightarrow>
                  mood_base.items
                    (fst (HomeScreen_fetchItems sb w (fst (HomeScreen_getCurrentUser sb w ms)))) = [])"
    if "auth_getUser w = Some u \<and> User.id' u \<noteq> []" for u
  proof -
    have id: "mood_state.userId (fst (HomeScreen_getCurrentUser sb w ms)) = Some (User.id' u)"
      using that HomeScreen_signed_in by blast
    then have "\<not> falsy (mood_state.userId (fst (HomeScreen_getCurrentUser sb w ms)))"
      using that by (simp add: falsy_def)
    from m2[OF this] show ?thesis unfolding id by blast
  qed
  have f4: "FoodScreen_fetchItems sb w (fst (FoodScreen_getCurrentUser sb w fs))
          = (fst (FoodScreen_getCurrentUser sb w fs), [])"
    if "auth_getUser w = None \<or> (\<exists>u. auth_getUser w = Some u \<and> User.id' u = [])"
    using f1[OF FoodScreen_signed_out[OF that]] .
  have m4: "HomeScreen_fetchItems sb w (fst (HomeScreen_getCurrentUser sb w ms))
          = (fst (HomeScreen_getCurrentUser sb w ms), [])"
    if "auth_getUser w = None \<or> (\<exists>u. auth_getUser w = Some u \<and> User.id' u = [])"
    using m1[OF HomeScreen_signed_out[OF that]] .
  show ?thesis
    using f1[of fs] f2[of fs] f3 f4 m1[of ms] m2[of ms] m3 m4
      FoodScreen_fetchItems_keeps_userId[of sb w fs] HomeScreen_fetchItems_keeps_userId[of sb w ms]
    by (intro conjI impI allI) blast+
qed

text \<open>C10 with no user id, with the user id loaded by \<open>getCurrentUser\<close> and a
  failing select on states that hold rows fetched earlier, and after
  \<open>getCurrentUser\<close> found no user.\<close>

theorem C10_witness:
  "falsy (food_state.userId (FoodScreen_initial\<lparr>food_state.items := [toast]\<rparr>))
   \<and> FoodScreen_fetchItems sb0 world0 (FoodScreen_initial\<lparr>food_state.items := [toast]\<rparr>)
       = (FoodScreen_initial\<lparr>food_state.items := [toast]\<rparr>, [])
   \<and> auth_getUser world_select_fails = Some \<lparr>User.id' = lit ''u1'', email = None\<rparr>
   \<and> snd (FoodScreen_fetchItems sb0 world_select_fails
             (fst (FoodScreen_getCurrentUser sb0 world_select_fails
                     (FoodScreen_initial\<lparr>food_state.items := [toast]\<rparr>))))
       = [DbSelect sb0 \<lparr>table = ''food_entries'', columns = ''*'',
                         filters = [(''user_id'', Some (lit ''u1''))],
                         ordering = Some (''created_at'', False), limit = Some 50\<rparr>]
   \<and> food_state.items
         (fst (FoodScreen_fetchItems sb0 world_select_fails
                 (fst (FoodScreen_getCurrentUser sb0 world_select_fails
                         (FoodScreen_initial\<lparr>food_state.items := [toast]\<rparr>))))) = []
   \<and> FoodScreen_fetchItems sb0 (world0\<lparr>auth_getUser := None\<rparr>)
         (fst (FoodScreen_getCurrentUser sb0 (world0\<lparr>auth_getUser := None\<rparr>) food1))
       = (fst (FoodScreen_getCurrentUser sb0 (world0\<lparr>auth_getUser := None\<rparr>) food1), [])
   \<and> falsy (mood_state.userId (HomeScreen_initial\<lparr>mood_base.items := [note1]\<rparr>))
   \<and> HomeScreen_fetchItems sb0 world0 (HomeScreen_initial\<lparr>mood_base.items := [note1]\<rparr>)
       = (HomeScreen_initial\<lparr>mood_base.items := [note1]\<rparr>, [])
   \<and> snd (HomeScreen_fetchItems sb0 world_select_fails
             (fst (HomeScreen_getCurrentUser sb0 world_select_fails
                     (HomeScreen_initial\<lparr>mood_base.items := [note1]\<rparr>))))
       = [DbSelect sb0 \<lparr>table = ''data'', columns = ''*'',
                         filters = [(''user_id'', Some (lit ''u1''))],
                         ordering = Some (''created_at'', False), limit = Some 50\<rparr>]
   \<and> mood_base.items
         (fst (HomeScreen_fetchItems sb0 world_select_fails
                 (fst (HomeScreen_getCurrentUser sb0 world_select_fails
                         (HomeScreen_initial\<lparr>mood_base.items := [note1]\<rparr>))))) = []
   \<and> HomeScreen_fetchItems sb0 (world0\<lparr>auth_getUser := None\<rparr>)
         (fst (HomeScreen_getCurrentUser sb0 (world0\<lparr>auth_getUser := None\<rparr>) mood1))
       = (fst (HomeScreen_getCurrentUser sb0 (world0\<lparr>auth_getUser := None\<rparr>) mood1), [])"
proof -
  let ?f0 = "FoodScreen_initial\<lparr>food_state.items := [toast]\<rparr>"
  let ?m0 = "HomeScreen_initial\<lparr>mood_base.items := [note1]\<rparr>"
  let ?w = world_select_fails
  let ?out = "world0\<lparr>auth_getUser := None\<rparr>"
  have f0: "falsy (food_state.userId ?f0)" and m0: "falsy (mood_state.userId ?m0)"
    by (simp_all add: FoodScreen_initial_def HomeScreen_initial_def falsy_def)
  have u: "User.id' \<lparr>User.id' = lit ''u1'', email = None\<rparr> \<noteq> []"
    by (simp add: lit_def)
  have fid: "food_state.userId (fst (FoodScreen_getCurrentUser sb0 ?w ?f0)) = Some (lit ''u1'')"
    and mid: "mood_state.userId (fst (HomeScreen_getCurrentUser sb0 ?w ?m0)) = Some (lit ''u1'')"
    using FoodScreen_signed_in[OF world_users(2) u] HomeScreen_signed_in[OF world_users(2) u]
    by simp_all
  have q: "FoodScreen_query (Some (lit ''u1'')) =
             \<lparr>table = ''food_entries'', columns = ''*'',
              filters = [(''user_id'', Some (lit ''u1''))],
              ordering = Some (''created_at'', False), limit = Some 50\<rparr>"
      "HomeScreen_query (Some (lit ''u1'')) =
             \<lparr>table = ''data'', columns = ''*'',
              filters = [(''user_id'', Some (lit ''u1''))],
              ordering = Some (''created_at'', False), limit = Some 50\<rparr>"
    by (simp_all add: FoodScreen_query_def HomeScreen_query_def FOOD_TABLE_def TABLE_def
          sb_limit_def sb_order_def sb_eq_def sb_select_def sb_from_def)
  have nf: "\<not> falsy (Some (lit ''u1''))"
    by (simp add: falsy_def lit_def)
  have tf: "snd (FoodScreen_fetchItems sb0 ?w (fst (FoodScreen_getCurrentUser sb0 ?w ?f0)))
       = [DbSelect sb0 (FoodScreen_query (Some (lit ''u1'')))]"
    and tm: "snd (HomeScreen_fetchItems sb0 ?w (fst (HomeScreen_getCurrentUser sb0 ?w ?m0)))
       = [DbSelect sb0 (HomeScreen_query (Some (lit ''u1'')))]"
    using nf by (simp_all add: FoodScreen_fetchItems_trace HomeScreen_fetchItems_trace fid mid)
  note C10 = C10_fetchItems_scoped_to_user
  from C10[where fs = ?f0 and sb = sb0 and w = world0 and ms = ?m0] f0 m0
  have a: "FoodScreen_fetchItems sb0 world0 ?f0 = (?f0, [])"
    and b: "HomeScreen_fetchItems sb0 world0 ?m0 = (?m0, [])"
    by blast+
  from C10[where fs = ?f0 and sb = sb0 and w = ?w and ms = ?m0] world_users(2) u
  obtain qf qm where
    "snd (FoodScreen_fetchItems sb0 ?w (fst (FoodScreen_getCurrentUser sb0 ?w ?f0))) = [DbSelect sb0 qf]"
    "\<forall>e. select_food_entries ?w qf = Failure e \<longrightarrow>
       food_state.items (fst (FoodScreen_fetchItems sb0 ?w (fst (FoodScreen_getCurrentUser sb0 ?w ?f0)))) = []"
    "snd (HomeScreen_fetchItems sb0 ?w (fst (HomeScreen_getCurrentUser sb0 ?w ?m0))) = [DbSelect sb0 qm]"
    "\<forall>e. select_data ?w qm = Failure e \<longrightarrow>
       mood_base.items (fst (HomeScreen_fetchItems sb0 ?w (fst (HomeScreen_getCurrentUser sb0 ?w ?m0)))) = []"
    by blast
  then have c: "food_state.items
         (fst (FoodScreen_fetchItems sb0 ?w (fst (FoodScreen_getCurrentUser sb0 ?w ?f0)))) = []"
    and d: "mood_base.items
         (fst (HomeScreen_fetchItems sb0 ?w (fst (HomeScreen_getCurrentUser sb0 ?w ?m0)))) = []"
    using select_fails by blast+
  from C10[where fs = food1 and sb = sb0 and w = ?out and ms = mood1] world_users(3)
  have e: "FoodScreen_fetchItems sb0 ?out (fst (FoodScreen_getCurrentUser sb0 ?out food1))
       = (fst (FoodScreen_getCurrentUser sb0 ?out food1), [])"
    and f: "HomeScreen_fetchItems sb0 ?out (fst (HomeScreen_getCurrentUser sb0 ?out mood1))
       = (fst (HomeScreen_getCurrentUser sb0 ?out mood1), [])"
    by blast+
  show ?thesis
    using f0 m0 a b c d e f world_users(2) tf tm q by simp
qed

end
